theory Spec2Isabelle
  imports Complex_Main
begin

section \<open>Strings\<close>

text \<open>
  The source is TypeScript; its strings are modelled as \<^typ>\<open>string\<close> (character lists).
  The helpers below are the string methods of the language that
  \<^verbatim>\<open>PluginService.ts\<close> calls and that work on the characters as they are:
  \<^verbatim>\<open>split\<close>, \<^verbatim>\<open>indexOf(..) === 0\<close>, \<^verbatim>\<open>join\<close>, \<^verbatim>\<open>endsWith\<close> and \<^verbatim>\<open>substr(0, n)\<close> (which is
  \<^const>\<open>take\<close>). \<^verbatim>\<open>trim\<close> removes the white space and the line terminators of Unicode,
  which a character list of bytes cannot name: it is a parameter, with the other
  collaborators below.
\<close>

text \<open>\<^verbatim>\<open>s.split(sep)\<close> for a one-character separator: never the empty list.\<close>

fun split :: "char \<Rightarrow> string \<Rightarrow> string list" where
  "split sep [] = [[]]"
| "split sep (c # cs) =
     (if c = sep then [] # split sep cs
      else (case split sep cs of
              [] \<Rightarrow> [[c]]
            | l # ls \<Rightarrow> (c # l) # ls))"

text \<open>\<^verbatim>\<open>s.indexOf(p) === 0\<close>: the string starts with \<open>p\<close>.\<close>

definition starts_with :: "string \<Rightarrow> string \<Rightarrow> bool" where
  "starts_with p s \<longleftrightarrow> take (length p) s = p"

definition ends_with :: "string \<Rightarrow> string \<Rightarrow> bool" where
  "ends_with p s \<longleftrightarrow> length p \<le> length s \<and> drop (length s - length p) s = p"

text \<open>\<^verbatim>\<open>xs.join(sep)\<close>.\<close>

fun join :: "string \<Rightarrow> string list \<Rightarrow> string" where
  "join sep [] = []"
| "join sep [x] = x"
| "join sep (x # y # ys) = x @ sep @ join sep (y # ys)"

text \<open>
  \<^verbatim>\<open>toLowerCase\<close>, on the ASCII letters. The source uses it for one test only,
  \<^verbatim>\<open>toLowerCase().endsWith('.js')\<close>, and no character but \<open>J\<close> and \<open>S\<close> has \<open>j\<close> or \<open>s\<close> for its
  lower case.
\<close>

definition lower_char :: "char \<Rightarrow> char" where
  "lower_char c =
     (case map_of (zip ''ABCDEFGHIJKLMNOPQRSTUVWXYZ'' ''abcdefghijklmnopqrstuvwxyz'') c of
        None \<Rightarrow> c
      | Some d \<Rightarrow> d)"

definition toLowerCase :: "string \<Rightarrow> string" where
  "toLowerCase s = map lower_char s"

section \<open>Errors\<close>

text \<open>
  Every \<^verbatim>\<open>throw\<close> of the source and every failure of a collaborator is a value.
  \<open>ManifestNotFound\<close> is \<^verbatim>\<open>Error('Could not find manifest')\<close>, \<open>DuplicateIdentifier id\<close> is
  \<^verbatim>\<open>Error('There is already a plugin with this ID: ' + id)\<close>, \<open>TypeError\<close> is what the
  language raises when a property of \<^verbatim>\<open>null\<close> is read or a property of a primitive
  is assigned in strict mode (class bodies are strict code). The others are what the
  collaborators raise: \<^verbatim>\<open>JSON.parse\<close>, the manifest validator, the file-system driver,
  and anything else (the version comparison, the path helpers, the runner).
\<close>

datatype error =
    ManifestNotFound
  | DuplicateIdentifier string
  | TypeError
  | InvalidManifestJson
  | ManifestSchemaInvalid string
  | IOError string
  | OtherError string

section \<open>Data model\<close>

text \<open>
  What \<^verbatim>\<open>JSON.parse\<close> returns. A number is the real it denotes (only whether it is
  zero is ever inspected). An array is an object too and can be given named
  properties: they are its second component, empty after parsing.
\<close>

datatype json =
    JNull
  | JBool bool
  | JNumber real
  | JString string
  | JArray "json list" "(string \<times> json) list"
  | JObject "(string \<times> json) list"

text \<open>
  Reading \<^verbatim>\<open>manifestObj.app_min_version\<close>: \<open>None\<close> is \<^verbatim>\<open>undefined\<close>. Reading a property
  of \<^verbatim>\<open>null\<close> throws; a boolean, a number or a string has no such property.
\<close>

fun get_app_min_version :: "json \<Rightarrow> error + json option" where
  "get_app_min_version JNull = Inl TypeError"
| "get_app_min_version (JObject kvs) = Inr (map_of kvs ''app_min_version'')"
| "get_app_min_version (JArray xs props) = Inr (map_of props ''app_min_version'')"
| "get_app_min_version _ = Inr None"

text \<open>The values which \<^verbatim>\<open>!v\<close> takes for false.\<close>

fun falsy :: "json option \<Rightarrow> bool" where
  "falsy None = True"
| "falsy (Some JNull) = True"
| "falsy (Some (JBool b)) = (\<not> b)"
| "falsy (Some (JNumber n)) = (n = 0)"
| "falsy (Some (JString s)) = (s = [])"
| "falsy (Some _) = False"

text \<open>Assigning a property of an object: an existing key keeps its place, a new one
  is added last.\<close>

fun set_field :: "string \<Rightarrow> json \<Rightarrow> (string \<times> json) list \<Rightarrow> (string \<times> json) list" where
  "set_field k v [] = [(k, v)]"
| "set_field k v ((k', v') # kvs) =
     (if k' = k then (k, v) # kvs else (k', v') # set_field k v kvs)"

text \<open>\<^verbatim>\<open>manifestObj.app_min_version = v\<close>; on a primitive it throws.\<close>

fun set_app_min_version :: "json \<Rightarrow> json \<Rightarrow> error + json" where
  "set_app_min_version (JObject kvs) v = Inr (JObject (set_field ''app_min_version'' v kvs))"
| "set_app_min_version (JArray xs props) v = Inr (JArray xs (set_field ''app_min_version'' v props))"
| "set_app_min_version _ v = Inl TypeError"

text \<open>
  The typed manifest which the validator \<^verbatim>\<open>manifestFromObject\<close> returns: the field this
  service reads, and the rest of the manifest.
\<close>

record manifest =
  app_min_version :: string
  manifest_fields :: "(string \<times> json) list"

text \<open>
  Modelled from the spec: the class \<^verbatim>\<open>Plugin\<close> (\<^verbatim>\<open>./Plugin\<close>, not among the sources).
  The entity holds its identifier, base directory, manifest, script text and the
  \<open>enabled\<close> flag, which is true by default; the logger and the dispatch function
  it is constructed with are those of the service. A deprecation notice is attached to
  the entity, tagged with the version at which the deprecated usage stops working.
  What the entity holds, it holds as plain properties.
\<close>

record plugin =
  plugin_id :: string
  baseDir :: string
  plugin_manifest :: manifest
  plugin_scriptText :: string
  enabled :: bool
  notices :: "(string \<times> string) list"

definition new_Plugin :: "string \<Rightarrow> string \<Rightarrow> manifest \<Rightarrow> string \<Rightarrow> plugin" where
  "new_Plugin pluginId dir m script =
     \<lparr>plugin_id = pluginId, baseDir = dir, plugin_manifest = m, plugin_scriptText = script,
      enabled = True, notices = []\<rparr>"

definition deprecationNotice :: "string \<Rightarrow> string \<Rightarrow> plugin \<Rightarrow> plugin" where
  "deprecationNotice goneInVersion message p = p\<lparr>notices := notices p @ [(goneInVersion, message)]\<rparr>"

text \<open>The action given to \<^verbatim>\<open>store_.dispatch\<close>; \<^verbatim>\<open>{}\<close> is the empty list of entries.\<close>

record action =
  action_type :: string
  action_plugin_id :: string
  action_views :: "(string \<times> json) list"
  action_contentScripts :: "(string \<times> json) list"

datatype log_level = LogInfo | LogError

datatype log_arg = NoArg | ManifestArg manifest | ErrorArg error

record log_entry =
  level :: log_level
  message :: string
  arg :: log_arg

text \<open>
  The service: its fields \<^verbatim>\<open>appVersion_\<close> and \<^verbatim>\<open>plugins_\<close> (a trailing underscore is
  not a name here, so they are \<open>appVersion\<close> and \<open>plugins\<close>), and what it has done to its
  collaborators so far: the actions dispatched to the store, the entries written to the
  logger, and the plugins handed to the runner, each in order.

  \<^verbatim>\<open>plugins_\<close> is a plain object, \<^verbatim>\<open>{}\<close>: \<open>plugins\<close> are its own properties, and
  \<open>plugins_proto\<close> is its prototype, \<open>None\<close> for \<^verbatim>\<open>Object.prototype\<close>, which it has until
  a plugin is assigned to its property \<^verbatim>\<open>__proto__\<close>.
\<close>

record service =
  appVersion :: string
  plugins :: "string \<rightharpoonup> plugin"
  plugins_proto :: "plugin option"
  dispatched :: "action list"
  logged :: "log_entry list"
  ran :: "plugin list"

definition dispatch :: "action \<Rightarrow> service \<Rightarrow> service" where
  "dispatch a s = s\<lparr>dispatched := dispatched s @ [a]\<rparr>"

definition logger_info :: "string \<Rightarrow> log_arg \<Rightarrow> service \<Rightarrow> service" where
  "logger_info msg a s = s\<lparr>logged := logged s @ [\<lparr>level = LogInfo, message = msg, arg = a\<rparr>]\<rparr>"

definition logger_error :: "string \<Rightarrow> log_arg \<Rightarrow> service \<Rightarrow> service" where
  "logger_error msg a s = s\<lparr>logged := logged s @ [\<lparr>level = LogError, message = msg, arg = a\<rparr>]\<rparr>"

text \<open>An entry of \<^verbatim>\<open>readDirStats\<close>.\<close>

record dir_stat =
  isDirectory :: bool
  stat_path :: string

text \<open>
  The collaborators, which are not part of this service: the language's
  \<^verbatim>\<open>String.prototype.trim\<close> and \<^verbatim>\<open>JSON.parse\<close>, whether a property of a \<^verbatim>\<open>Plugin\<close> object
  (its own or inherited) is true as a condition, the validator \<^verbatim>\<open>manifestFromObject\<close>, the packages \<^verbatim>\<open>compare-versions\<close>
  and \<^verbatim>\<open>uslug\<close>, the path helpers of \<^verbatim>\<open>path-utils\<close>, the file-system driver and the
  plugin runner. Each is a parameter; where it can throw, it returns a sum.
\<close>

record env =
  trim :: "string \<Rightarrow> string"
  plugin_member :: "plugin \<Rightarrow> string \<Rightarrow> bool"
  JSON_parse :: "string \<Rightarrow> error + json"
  manifestFromObject :: "json \<Rightarrow> error + manifest"
  compareVersions :: "string \<Rightarrow> string \<Rightarrow> error + int"
  uslug :: "string \<Rightarrow> string"
  rtrimSlashes :: "string \<Rightarrow> string"
  filename :: "string \<Rightarrow> error + string"
  dirname :: "string \<Rightarrow> error + string"
  fs_exists :: "string \<Rightarrow> error + bool"
  fs_readFile :: "string \<Rightarrow> error + string"
  fs_readDirStats :: "string \<Rightarrow> error + dir_stat list"
  runner_run :: "plugin \<Rightarrow> error + unit"

section \<open>Manifest Block Extractor: parsePluginJsBundle\<close>

datatype scan_state = StateStarted | StateInManifest

text \<open>The object returned: its properties \<^verbatim>\<open>scriptText\<close> and \<^verbatim>\<open>manifestText\<close>.\<close>

record js_bundle =
  bundle_scriptText :: string
  bundle_manifestText :: string

definition opening_marker :: string where
  "opening_marker = ''/* joplin-manifest:''"

definition closing_marker :: string where
  "closing_marker = ''*/''"

text \<open>
  The \<^verbatim>\<open>for (let line of lines)\<close> loop of \<^verbatim>\<open>parsePluginJsBundle\<close>: the state, the
  accumulator \<^verbatim>\<open>manifestText\<close> and the lines still to read. \<^verbatim>\<open>continue\<close> is the
  recursive call, \<^verbatim>\<open>break\<close> returns the accumulator.
\<close>

fun scan_lines :: "env \<Rightarrow> scan_state \<Rightarrow> string list \<Rightarrow> string list \<Rightarrow> string list" where
  "scan_lines e state acc [] = acc"
| "scan_lines e state acc (l # ls) =
     (let line = trim e l in
      if state \<noteq> StateInManifest then
        (if line = opening_marker then scan_lines e StateInManifest acc ls
         else scan_lines e state acc ls)
      else if starts_with closing_marker line then acc
      else scan_lines e state (acc @ [line]) ls)"

definition parsePluginJsBundle :: "env \<Rightarrow> string \<Rightarrow> error + js_bundle" where
  "parsePluginJsBundle e jsBundleString =
     (let scriptText = jsBundleString;
          lines = split CHR 0x0A scriptText;
          manifestText = scan_lines e StateStarted [] lines
      in if length manifestText = 0 then Inl ManifestNotFound
         else Inr \<lparr>bundle_scriptText = scriptText,
                  bundle_manifestText = join [CHR 0x0A] manifestText\<rparr>)"

section \<open>Identifier Assigner: makePluginId\<close>

definition makePluginId :: "env \<Rightarrow> string \<Rightarrow> string" where
  "makePluginId e source = take 32 (uslug e source)"

section \<open>The registry, a plain object\<close>

text \<open>
  The properties of \<^verbatim>\<open>Object.prototype\<close>, which every plain object inherits. Each of
  them is true as a condition.
\<close>

definition object_prototype_members :: "string list" where
  "object_prototype_members =
     [''constructor'', ''hasOwnProperty'', ''isPrototypeOf'', ''propertyIsEnumerable'',
      ''toLocaleString'', ''toString'', ''valueOf'', ''__defineGetter__'', ''__defineSetter__'',
      ''__lookupGetter__'', ''__lookupSetter__'', ''__proto__'']"

text \<open>
  Whether \<^verbatim>\<open>this.plugins_[id]\<close> is true as a condition (lines 51 and 141): \<^verbatim>\<open>__proto__\<close>
  reads the prototype, which is an object; an own property is a plugin; anything else is
  looked up in the prototype.
\<close>

definition registered :: "env \<Rightarrow> service \<Rightarrow> string \<Rightarrow> bool" where
  "registered e s pluginId =
     (if pluginId = ''__proto__'' then True
      else
        (case plugins s pluginId of
           Some p \<Rightarrow> True
         | None \<Rightarrow>
             (case plugins_proto s of
                None \<Rightarrow> pluginId \<in> set object_prototype_members
              | Some proto \<Rightarrow> plugin_member e proto pluginId)))"

text \<open>
  \<^verbatim>\<open>this.plugins_[plugin.id] = plugin\<close> (line 193): an own property is written, except
  for \<^verbatim>\<open>__proto__\<close>, which replaces the prototype.
\<close>

definition register :: "plugin \<Rightarrow> service \<Rightarrow> service" where
  "register p s =
     (if plugin_id p = ''__proto__'' then s\<lparr>plugins_proto := Some p\<rparr>
      else s\<lparr>plugins := (plugins s)(plugin_id p \<mapsto> p)\<rparr>)"

section \<open>Plugin Loader: loadPlugin\<close>

text \<open>
  Lines 129 to 134 of \<^verbatim>\<open>loadPlugin\<close>: when \<^verbatim>\<open>manifestObj.app_min_version\<close> is false as a
  condition, it is set to \<^verbatim>\<open>'1.4'\<close>. Returns the object and \<^verbatim>\<open>showAppMinVersionNotice\<close>.
\<close>

definition default_app_min_version :: "json \<Rightarrow> error + (json \<times> bool)" where
  "default_app_min_version manifestObj =
     (case get_app_min_version manifestObj of
        Inl e \<Rightarrow> Inl e
      | Inr v \<Rightarrow>
          if falsy v then
            (case set_app_min_version manifestObj (JString ''1.4'') of
               Inl e \<Rightarrow> Inl e
             | Inr manifestObj' \<Rightarrow> Inr (manifestObj', True))
          else Inr (manifestObj, False))"

definition disabled_message :: "string \<Rightarrow> string" where
  "disabled_message pluginId =
     ''PluginService: Plugin \"'' @ pluginId @
     ''\" was disabled because it requires a newer version of Joplin.''"

definition app_min_version_notice :: string where
  "app_min_version_notice =
     ''The manifest must contain an \"app_min_version\" key, which should be the minimum version of the app you support. It was automatically set to \"1.4\", but please update your manifest.json file.''"

definition plugin_add :: "string \<Rightarrow> action" where
  "plugin_add pluginId =
     \<lparr>action_type = ''PLUGIN_ADD'', action_plugin_id = pluginId,
      action_views = [], action_contentScripts = []\<rparr>"

text \<open>
  Lines 145 to 163: the version gate, the notice and the return, for the plugin just
  constructed and the result \<open>c\<close> of \<^verbatim>\<open>compareVersions\<close>.
\<close>

definition gate_and_announce ::
  "string \<Rightarrow> manifest \<Rightarrow> bool \<Rightarrow> int \<Rightarrow> plugin \<Rightarrow> service \<Rightarrow> plugin \<times> service" where
  "gate_and_announce pluginId m showAppMinVersionNotice c p s =
     (let (p1, s1) =
            (if c < 0 then
               (p\<lparr>enabled := False\<rparr>, logger_info (disabled_message pluginId) (ManifestArg m) s)
             else (p, dispatch (plugin_add pluginId) s));
          p2 = (if showAppMinVersionNotice
                then deprecationNotice ''1.5'' app_min_version_notice p1 else p1)
      in (p2, s1))"

definition loadPlugin ::
  "env \<Rightarrow> string \<Rightarrow> string \<Rightarrow> string \<Rightarrow> string \<Rightarrow> service \<Rightarrow> (error + plugin) \<times> service" where
  "loadPlugin e pluginId baseDir0 manifestText scriptText s =
     (let baseDir = rtrimSlashes e baseDir0 in
      case JSON_parse e manifestText of
        Inl err \<Rightarrow> (Inl err, s)
      | Inr manifestObj0 \<Rightarrow>
      (case default_app_min_version manifestObj0 of
        Inl err \<Rightarrow> (Inl err, s)
      | Inr (manifestObj, showAppMinVersionNotice) \<Rightarrow>
      (case manifestFromObject e manifestObj of
        Inl err \<Rightarrow> (Inl err, s)
      | Inr m \<Rightarrow>
          if registered e s pluginId then (Inl (DuplicateIdentifier pluginId), s)
          else
            let p = new_Plugin pluginId baseDir m scriptText in
            (case compareVersions e (appVersion s) (app_min_version m) of
               Inl err \<Rightarrow> (Inl err, s)
             | Inr c \<Rightarrow>
                 (case gate_and_announce pluginId m showAppMinVersionNotice c p s of
                    (p', s') \<Rightarrow> (Inr p', s'))))))"

section \<open>loadPluginFromString and the Path Resolver, loadPluginFromPath\<close>

definition loadPluginFromString ::
  "env \<Rightarrow> string \<Rightarrow> string \<Rightarrow> string \<Rightarrow> service \<Rightarrow> (error + plugin) \<times> service" where
  "loadPluginFromString e pluginId baseDir0 jsBundleString s =
     (let baseDir = rtrimSlashes e baseDir0 in
      case parsePluginJsBundle e jsBundleString of
        Inl err \<Rightarrow> (Inl err, s)
      | Inr r \<Rightarrow> loadPlugin e pluginId baseDir (bundle_manifestText r) (bundle_scriptText r) s)"

definition loading_message :: "string \<Rightarrow> string" where
  "loading_message path = ''PluginService: Loading plugin from '' @ path"

text \<open>
  The arguments of the call on line 108 are evaluated from left to right:
  \<^verbatim>\<open>filename(path)\<close>, \<^verbatim>\<open>dirname(path)\<close>, then the file is read.
\<close>

definition loadPluginFromPath :: "env \<Rightarrow> string \<Rightarrow> service \<Rightarrow> (error + plugin) \<times> service" where
  "loadPluginFromPath e path0 s =
     (let path = rtrimSlashes e path0 in
      if ends_with ''.js'' (toLowerCase path) then
        (case filename e path of
           Inl err \<Rightarrow> (Inl err, s)
         | Inr name \<Rightarrow>
         (case dirname e path of
           Inl err \<Rightarrow> (Inl err, s)
         | Inr dir \<Rightarrow>
         (case fs_readFile e path of
           Inl err \<Rightarrow> (Inl err, s)
         | Inr content \<Rightarrow> loadPluginFromString e name dir content s)))
      else
        (case fs_exists e (path @ ''/manifest.json'') of
           Inl err \<Rightarrow> (Inl err, s)
         | Inr found \<Rightarrow>
             let distPath = (if \<not> found then path @ ''/dist'' else path);
                 s1 = logger_info (loading_message path) NoArg s
             in
             (case fs_readFile e (distPath @ ''/index.js'') of
                Inl err \<Rightarrow> (Inl err, s1)
              | Inr scriptText \<Rightarrow>
              (case fs_readFile e (distPath @ ''/manifest.json'') of
                Inl err \<Rightarrow> (Inl err, s1)
              | Inr manifestText \<Rightarrow>
              (case filename e path of
                Inl err \<Rightarrow> (Inl err, s1)
              | Inr name \<Rightarrow>
                  loadPlugin e (makePluginId e name) distPath manifestText scriptText s1)))))"

section \<open>Run Coordination: runPlugin\<close>

text \<open>
  The plugin is assigned to the registry under its identifier, whatever is stored
  there, and handed to the runner; the result is the runner's.
\<close>

definition runPlugin :: "env \<Rightarrow> plugin \<Rightarrow> service \<Rightarrow> (error + unit) \<times> service" where
  "runPlugin e p s =
     (let s1 = register p s;
          s2 = s1\<lparr>ran := ran s1 @ [p]\<rparr>
      in (runner_run e p, s2))"

section \<open>Batch Orchestrator: loadAndRunPlugins\<close>

datatype plugin_source = Paths "string list" | Directory string

definition skipped_message :: "string \<Rightarrow> string" where
  "skipped_message pluginPath =
     ''PluginService: Plugin name starts with \"_\" and has not been loaded: '' @ pluginPath"

definition could_not_load_message :: "string \<Rightarrow> string" where
  "could_not_load_message pluginPath = ''PluginService: Could not load plugin: '' @ pluginPath"

text \<open>The body of the loop of \<^verbatim>\<open>loadAndRunPlugins\<close>, for one \<^verbatim>\<open>pluginPath\<close>.\<close>

definition load_and_run_one :: "env \<Rightarrow> string \<Rightarrow> service \<Rightarrow> service" where
  "load_and_run_one e pluginPath s =
     (if starts_with ''_'' pluginPath then logger_info (skipped_message pluginPath) NoArg s
      else
        (case loadPluginFromPath e pluginPath s of
           (Inl err, s1) \<Rightarrow> logger_error (could_not_load_message pluginPath) (ErrorArg err) s1
         | (Inr p, s1) \<Rightarrow>
             (case runPlugin e p s1 of
                (Inl err, s2) \<Rightarrow> logger_error (could_not_load_message pluginPath) (ErrorArg err) s2
              | (Inr u, s2) \<Rightarrow> s2)))"

fun load_and_run_all :: "env \<Rightarrow> string list \<Rightarrow> service \<Rightarrow> service" where
  "load_and_run_all e [] s = s"
| "load_and_run_all e (pluginPath # pluginPaths) s =
     load_and_run_all e pluginPaths (load_and_run_one e pluginPath s)"

text \<open>The candidates of a directory: \<^verbatim>\<open>readDirStats\<close>, filtered and mapped.\<close>

definition directory_candidates :: "string \<Rightarrow> dir_stat list \<Rightarrow> string list" where
  "directory_candidates dir stats =
     map (\<lambda>stat. dir @ ''/'' @ stat_path stat)
       (filter (\<lambda>stat. isDirectory stat \<or> ends_with ''.js'' (toLowerCase (stat_path stat))) stats)"

definition loadAndRunPlugins ::
  "env \<Rightarrow> plugin_source \<Rightarrow> service \<Rightarrow> (error + unit) \<times> service" where
  "loadAndRunPlugins e pluginDirOrPaths s =
     (case pluginDirOrPaths of
        Paths pluginPaths \<Rightarrow> (Inr (), load_and_run_all e pluginPaths s)
      | Directory dir \<Rightarrow>
          (case fs_readDirStats e dir of
             Inl err \<Rightarrow> (Inl err, s)
           | Inr stats \<Rightarrow> (Inr (), load_and_run_all e (directory_candidates dir stats) s)))"

section \<open>A test double of the collaborators\<close>

text \<open>
  A small concrete environment on which the theorems below are instantiated: \<^verbatim>\<open>trim\<close> as
  it is on ASCII text (tab, line feed, vertical tab, form feed, carriage return and space
  are removed), a \<^verbatim>\<open>Plugin\<close> object with four properties of its own, a parser
  that knows four manifest texts, a validator that wants \<open>app_min_version\<close> to be a
  string, a comparison of the versions 1.0, 1.4, 1.5 and 2.0, a slug function that
  lower-cases, path helpers for \<open>/\<close>-separated paths, a file system with eight plugins
  and a runner that accepts every plugin.
\<close>

definition demo_is_space :: "char \<Rightarrow> bool" where
  "demo_is_space c \<longleftrightarrow>
     c \<in> set [CHR 0x09, CHR 0x0A, CHR 0x0B, CHR 0x0C, CHR 0x0D, CHR 0x20]"

definition demo_trim :: "string \<Rightarrow> string" where
  "demo_trim s = rev (dropWhile demo_is_space (rev (dropWhile demo_is_space s)))"

definition demo_plugin_member :: "plugin \<Rightarrow> string \<Rightarrow> bool" where
  "demo_plugin_member p k \<longleftrightarrow>
     k \<in> set (object_prototype_members @ [''id'', ''baseDir'', ''manifest'', ''scriptText''])"

definition demo_parse :: "string \<Rightarrow> error + json" where
  "demo_parse text =
     (if text = ''{}'' then Inr (JObject [])
      else if text = ''{\"app_min_version\": \"1.0\"}''
        then Inr (JObject [(''app_min_version'', JString ''1.0'')])
      else if text = ''{\"app_min_version\": \"2.0\"}''
        then Inr (JObject [(''app_min_version'', JString ''2.0'')])
      else if text = ''{\"name\": \"Gamma\", \"app_min_version\": \"1.4\"}''
        then Inr (JObject [(''name'', JString ''Gamma''), (''app_min_version'', JString ''1.4'')])
      else Inl InvalidManifestJson)"

definition demo_validate :: "json \<Rightarrow> error + manifest" where
  "demo_validate obj =
     (case obj of
        JObject kvs \<Rightarrow>
          (case map_of kvs ''app_min_version'' of
             Some (JString v) \<Rightarrow> Inr \<lparr>app_min_version = v, manifest_fields = kvs\<rparr>
           | _ \<Rightarrow> Inl (ManifestSchemaInvalid ''app_min_version''))
      | _ \<Rightarrow> Inl (ManifestSchemaInvalid ''manifest''))"

definition demo_rank :: "string \<Rightarrow> nat option" where
  "demo_rank v = map_of [(''1.0'', 10), (''1.4'', 14), (''1.5'', 15), (''2.0'', 20)] v"

definition demo_compare :: "string \<Rightarrow> string \<Rightarrow> error + int" where
  "demo_compare v1 v2 =
     (case (demo_rank v1, demo_rank v2) of
        (Some a, Some b) \<Rightarrow> Inr (if a < b then - 1 else if a = b then 0 else 1)
      | _ \<Rightarrow> Inl (OtherError ''Invalid argument not valid semver''))"

definition demo_rtrimSlashes :: "string \<Rightarrow> string" where
  "demo_rtrimSlashes path = rev (dropWhile (\<lambda>c. c = CHR ''/'') (rev path))"

definition demo_filename :: "string \<Rightarrow> error + string" where
  "demo_filename path =
     (if path = [] then Inl (OtherError ''Path is empty'')
      else Inr (takeWhile (\<lambda>c. c \<noteq> CHR ''.'') (last (split CHR ''/'' path))))"

definition demo_dirname :: "string \<Rightarrow> error + string" where
  "demo_dirname path =
     (if path = [] then Inl (OtherError ''Path is empty'')
      else Inr (join ''/'' (butlast (split CHR ''/'' path))))"

definition demo_files :: "(string \<times> string) list" where
  "demo_files =
     [(''plugins/alpha/manifest.json'', ''{\"app_min_version\": \"1.0\"}''),
      (''plugins/alpha/index.js'', ''alpha();''),
      (''plugins/broken/manifest.json'', ''{not json''),
      (''plugins/broken/index.js'', ''broken();''),
      (''plugins/gamma/dist/manifest.json'', ''{\"name\": \"Gamma\", \"app_min_version\": \"1.4\"}''),
      (''plugins/gamma/dist/index.js'', ''gamma();''),
      (''plugins/_off/manifest.json'', ''{\"app_min_version\": \"1.0\"}''),
      (''plugins/_off/index.js'', ''off();''),
      (''plugins/MyPlugin/manifest.json'', ''{}''),
      (''plugins/MyPlugin/index.js'', ''run();''),
      (''plugins/myplugin/manifest.json'', ''{not json''),
      (''plugins/myplugin/index.js'', ''other();''),
      (''plugins/MYPLUGIN/manifest.json'', ''{\"app_min_version\": \"1.0\"}''),
      (''plugins/MYPLUGIN/index.js'', ''other();''),
      (''plugins/MyPlugin.js'', ''/* joplin-manifest:\<newline>{\"app_min_version\": \"1.0\"}\<newline>*/\<newline>run();'')]"

definition demo_exists :: "string \<Rightarrow> error + bool" where
  "demo_exists path = Inr (map_of demo_files path \<noteq> None)"

definition demo_readFile :: "string \<Rightarrow> error + string" where
  "demo_readFile path =
     (case map_of demo_files path of
        None \<Rightarrow> Inl (IOError path)
      | Some content \<Rightarrow> Inr content)"

definition demo_readDirStats :: "string \<Rightarrow> error + dir_stat list" where
  "demo_readDirStats dir =
     (if dir = ''plugins'' then
        Inr [\<lparr>isDirectory = True, stat_path = ''alpha''\<rparr>,
             \<lparr>isDirectory = True, stat_path = ''_off''\<rparr>,
             \<lparr>isDirectory = False, stat_path = ''notes.txt''\<rparr>]
      else Inl (IOError dir))"

definition demo_env :: env where
  "demo_env =
     \<lparr>trim = demo_trim, plugin_member = demo_plugin_member,
      JSON_parse = demo_parse, manifestFromObject = demo_validate,
      compareVersions = demo_compare, uslug = toLowerCase,
      rtrimSlashes = demo_rtrimSlashes, filename = demo_filename, dirname = demo_dirname,
      fs_exists = demo_exists, fs_readFile = demo_readFile,
      fs_readDirStats = demo_readDirStats, runner_run = (\<lambda>p. Inr ())\<rparr>"

text \<open>A service initialised for version 1.5 of the application, with no plugin yet.\<close>

definition demo_service :: service where
  "demo_service =
     \<lparr>appVersion = ''1.5'', plugins = Map.empty, plugins_proto = None,
      dispatched = [], logged = [], ran = []\<rparr>"

text \<open>The plugin which the directory \<open>plugins/MyPlugin\<close> gives when its manifest is \<open>{}\<close>.\<close>

definition demo_myplugin :: plugin where
  "demo_myplugin =
     \<lparr>plugin_id = ''myplugin'', baseDir = ''plugins/MyPlugin'',
      plugin_manifest = \<lparr>app_min_version = ''1.4'',
        manifest_fields = [(''app_min_version'', JString ''1.4'')]\<rparr>,
      plugin_scriptText = ''run();'', enabled = True,
      notices = [(''1.5'', app_min_version_notice)]\<rparr>"

section \<open>The vocabulary of the claims about the manifest block\<close>

definition bundle_lines :: "string \<Rightarrow> string list" where
  "bundle_lines b = split CHR 0x0A b"

text \<open>An opening marker line and a closing marker line, as the scanner recognises them.\<close>

definition is_opening :: "env \<Rightarrow> string \<Rightarrow> bool" where
  "is_opening e l \<longleftrightarrow> trim e l = opening_marker"

definition is_closing :: "env \<Rightarrow> string \<Rightarrow> bool" where
  "is_closing e l \<longleftrightarrow> starts_with closing_marker (trim e l)"

definition has_opening_marker :: "env \<Rightarrow> string \<Rightarrow> bool" where
  "has_opening_marker e b \<longleftrightarrow> list_ex (is_opening e) (bundle_lines b)"

definition has_closing_marker :: "env \<Rightarrow> string \<Rightarrow> bool" where
  "has_closing_marker e b \<longleftrightarrow> list_ex (is_closing e) (bundle_lines b)"

text \<open>The lines after the first opening marker line; none when there is no such line.\<close>

definition after_opening :: "env \<Rightarrow> string list \<Rightarrow> string list" where
  "after_opening e ls = drop 1 (dropWhile (\<lambda>l. \<not> is_opening e l) ls)"


section \<open>The vocabulary of the claims about the registry and the batch\<close>

text \<open>
  The public operations which change the service, and a sequence of them. What a load
  returns goes to the caller, who may run it later or not at all.
\<close>

datatype operation =
    LoadAndRunPlugins plugin_source
  | LoadPluginFromString string string string
  | RunPlugin plugin

fun perform :: "env \<Rightarrow> operation \<Rightarrow> service \<Rightarrow> service" where
  "perform e (LoadAndRunPlugins src) s = snd (loadAndRunPlugins e src s)"
| "perform e (LoadPluginFromString pluginId dir js) s = snd (loadPluginFromString e pluginId dir js s)"
| "perform e (RunPlugin p) s = snd (runPlugin e p s)"

fun perform_all :: "env \<Rightarrow> operation list \<Rightarrow> service \<Rightarrow> service" where
  "perform_all e [] s = s"
| "perform_all e (op # ops) s = perform_all e ops (perform e op s)"

text \<open>The service with the entries \<open>l\<close> written to the logger before its own.\<close>

definition with_log :: "log_entry list \<Rightarrow> service \<Rightarrow> service" where
  "with_log l s = s\<lparr>logged := l @ logged s\<rparr>"

text \<open>Two plugins with one identifier, as two loads of one bundle return them.\<close>

definition demo_bundle :: string where
  "demo_bundle = ''/* joplin-manifest:\<newline>{\"app_min_version\": \"1.0\"}\<newline>*/\<newline>run();''"

definition demo_dup :: "string \<Rightarrow> plugin" where
  "demo_dup dir =
     \<lparr>plugin_id = ''dup'', baseDir = dir,
      plugin_manifest = \<lparr>app_min_version = ''1.0'',
        manifest_fields = [(''app_min_version'', JString ''1.0'')]\<rparr>,
      plugin_scriptText = demo_bundle, enabled = True, notices = []\<rparr>"


lemmas string_defs =
  demo_trim_def demo_is_space_def starts_with_def ends_with_def toLowerCase_def lower_char_def
  opening_marker_def closing_marker_def

lemmas demo_defs =
  demo_env_def demo_service_def demo_parse_def demo_validate_def demo_rank_def
  demo_compare_def demo_rtrimSlashes_def demo_filename_def demo_dirname_def demo_files_def
  demo_exists_def demo_readFile_def demo_readDirStats_def demo_plugin_member_def

lemmas service_defs =
  parsePluginJsBundle_def makePluginId_def default_app_min_version_def
  gate_and_announce_def loadPlugin_def loadPluginFromString_def loadPluginFromPath_def
  runPlugin_def load_and_run_one_def directory_candidates_def loadAndRunPlugins_def
  new_Plugin_def deprecationNotice_def dispatch_def logger_info_def logger_error_def
  plugin_add_def registered_def register_def object_prototype_members_def

section \<open>The loader: what a load changes\<close>

lemma registered_own: "\<not> registered e s i \<Longrightarrow> plugins s i = None"
  by (auto simp: registered_def split: if_splits option.splits)

lemma registered_cong:
  "plugins s = plugins t \<Longrightarrow> plugins_proto s = plugins_proto t \<Longrightarrow>
     registered e s i = registered e t i"
  by (simp only: registered_def)

lemma gate_and_announce_frame:
  "gate_and_announce i m n c p s = (p', s') \<Longrightarrow>
     plugins s' = plugins s \<and> plugins_proto s' = plugins_proto s \<and>
     appVersion s' = appVersion s \<and> ran s' = ran s \<and> plugin_id p' = plugin_id p"
  by (auto simp: gate_and_announce_def logger_info_def dispatch_def deprecationNotice_def
      split: if_splits)

lemma loadPlugin_frame:
  "loadPlugin e i d mt st s = (r, s') \<Longrightarrow>
     plugins s' = plugins s \<and> plugins_proto s' = plugins_proto s \<and>
     appVersion s' = appVersion s \<and> ran s' = ran s"
  by (auto simp: loadPlugin_def Let_def split: sum.splits prod.splits if_splits
      dest: gate_and_announce_frame)

lemma loadPlugin_Inr_fresh:
  "loadPlugin e i d mt st s = (Inr p, s') \<Longrightarrow> plugin_id p = i \<and> \<not> registered e s i"
  by (auto simp: loadPlugin_def Let_def new_Plugin_def split: sum.splits prod.splits if_splits
      dest: gate_and_announce_frame)

text \<open>
  An identifier which names a property of \<^verbatim>\<open>Object.prototype\<close> is found in the registry
  while no plugin is stored: the load throws the duplicate error.
\<close>

lemma loadPlugin_prototype_member:
  "loadPlugin demo_env ''constructor'' ''plugins/constructor'' ''{}'' ''run();'' demo_service =
     (Inl (DuplicateIdentifier ''constructor''), demo_service)"
  by (simp add: service_defs demo_defs Let_def)

text \<open>
  C10. \<^verbatim>\<open>loadPlugin\<close> leaves the registry \<^verbatim>\<open>plugins_\<close> as it was, its properties and its
  prototype, whatever the arguments and whether it returns a plugin or throws. A plugin
  it returns has the identifier asked for, and that identifier is not in the registry
  afterwards: only \<^verbatim>\<open>runPlugin\<close> stores it.
\<close>

theorem loadPlugin_registry_unchanged:
  "plugins (snd (loadPlugin e pluginId dir mt st s)) = plugins s \<and>
   plugins_proto (snd (loadPlugin e pluginId dir mt st s)) = plugins_proto s \<and>
   (\<forall>p. fst (loadPlugin e pluginId dir mt st s) = Inr p \<longrightarrow>
      plugin_id p = pluginId \<and>
      plugins (snd (loadPlugin e pluginId dir mt st s)) pluginId = None \<and>
      \<not> registered e (snd (loadPlugin e pluginId dir mt st s)) pluginId)"
proof -
  obtain r s' where eq: "loadPlugin e pluginId dir mt st s = (r, s')"
    by (cases "loadPlugin e pluginId dir mt st s")
  from loadPlugin_frame [OF eq]
  have same: "plugins s' = plugins s" "plugins_proto s' = plugins_proto s"
    by simp_all
  have reg: "registered e s' pluginId = registered e s pluginId"
    by (simp only: registered_def same)
  have "plugin_id p = pluginId \<and> plugins s' pluginId = None \<and> \<not> registered e s' pluginId"
    if "r = Inr p" for p
    using loadPlugin_Inr_fresh [of e pluginId dir mt st s p s'] eq that same reg
      registered_own [of e s pluginId] by simp
  with eq same show ?thesis by simp
qed

text \<open>The instance: a plugin which the version gate disables is returned and not stored.\<close>

theorem loadPlugin_registry_unchanged_witness:
  "fst (loadPlugin demo_env ''alpha'' ''plugins/alpha'' ''{\"app_min_version\": \"2.0\"}''
      ''alpha();'' demo_service) =
     Inr \<lparr>plugin_id = ''alpha'', baseDir = ''plugins/alpha'',
          plugin_manifest = \<lparr>app_min_version = ''2.0'',
             manifest_fields = [(''app_min_version'', JString ''2.0'')]\<rparr>,
          plugin_scriptText = ''alpha();'', enabled = False, notices = []\<rparr> \<and>
   plugins (snd (loadPlugin demo_env ''alpha'' ''plugins/alpha''
      ''{\"app_min_version\": \"2.0\"}'' ''alpha();'' demo_service)) = plugins demo_service \<and>
   plugins (snd (loadPlugin demo_env ''alpha'' ''plugins/alpha''
      ''{\"app_min_version\": \"2.0\"}'' ''alpha();'' demo_service)) ''alpha'' = None \<and>
   \<not> registered demo_env (snd (loadPlugin demo_env ''alpha'' ''plugins/alpha''
      ''{\"app_min_version\": \"2.0\"}'' ''alpha();'' demo_service)) ''alpha''"
proof -
  have loaded: "fst (loadPlugin demo_env ''alpha'' ''plugins/alpha''
      ''{\"app_min_version\": \"2.0\"}'' ''alpha();'' demo_service) =
     Inr \<lparr>plugin_id = ''alpha'', baseDir = ''plugins/alpha'',
          plugin_manifest = \<lparr>app_min_version = ''2.0'',
             manifest_fields = [(''app_min_version'', JString ''2.0'')]\<rparr>,
          plugin_scriptText = ''alpha();'', enabled = False, notices = []\<rparr>"
    by (simp add: service_defs demo_defs Let_def)
  with loadPlugin_registry_unchanged [of demo_env "''alpha''" "''plugins/alpha''"
      "''{\"app_min_version\": \"2.0\"}''" "''alpha();''" demo_service]
  show ?thesis by blast
qed

text \<open>
  C1. When a load reaches the version gate (the manifest text parses, the object is
  accepted by the validator, the registry has nothing under the identifier, of its own
  or inherited, and the two versions can be compared), \<^verbatim>\<open>loadPlugin\<close> returns a plugin. If the version of the application
  is below the manifest's \<open>app_min_version\<close> (\<^verbatim>\<open>compareVersions\<close> is negative), the plugin
  has \<open>enabled = False\<close> and nothing is dispatched to the store. Otherwise the plugin is
  enabled and exactly one action is dispatched: \<^verbatim>\<open>PLUGIN_ADD\<close> with the plugin's identifier
  and empty \<open>views\<close> and \<open>contentScripts\<close>.
\<close>

theorem loadPlugin_version_gate:
  assumes parsed: "JSON_parse e mt = Inr obj0"
    and defaulted: "default_app_min_version obj0 = Inr (obj, notice)"
    and valid: "manifestFromObject e obj = Inr m"
    and fresh: "\<not> registered e s pluginId"
    and compared: "compareVersions e (appVersion s) (app_min_version m) = Inr c"
  shows "\<exists>p s'. loadPlugin e pluginId dir mt st s = (Inr p, s') \<and>
           plugin_id p = pluginId \<and> plugin_manifest p = m \<and>
           (if c < 0 then \<not> enabled p \<and> dispatched s' = dispatched s
            else enabled p \<and>
              dispatched s' = dispatched s @
                [\<lparr>action_type = ''PLUGIN_ADD'', action_plugin_id = pluginId,
                  action_views = [], action_contentScripts = []\<rparr>])"
  using assms
  by (auto simp: loadPlugin_def gate_and_announce_def new_Plugin_def deprecationNotice_def
      logger_info_def dispatch_def plugin_add_def Let_def)

text \<open>
  The instances: the application is at version 1.5; a manifest asking for 2.0 gives a
  disabled plugin and no action, a manifest asking for 1.0 gives one action.
\<close>

theorem loadPlugin_version_gate_witness:
  "(\<exists>p s'. loadPlugin demo_env ''alpha'' ''plugins/alpha'' ''{\"app_min_version\": \"2.0\"}''
       ''alpha();'' demo_service = (Inr p, s') \<and>
       plugin_id p = ''alpha'' \<and> \<not> enabled p \<and> dispatched s' = []) \<and>
   (\<exists>p s'. loadPlugin demo_env ''alpha'' ''plugins/alpha'' ''{\"app_min_version\": \"1.0\"}''
       ''alpha();'' demo_service = (Inr p, s') \<and>
       plugin_id p = ''alpha'' \<and> enabled p \<and>
       dispatched s' = [\<lparr>action_type = ''PLUGIN_ADD'', action_plugin_id = ''alpha'',
                  action_views = [], action_contentScripts = []\<rparr>])"
proof -
  let ?o2 = "JObject [(''app_min_version'', JString ''2.0'')]"
  let ?o1 = "JObject [(''app_min_version'', JString ''1.0'')]"
  let ?m2 = "\<lparr>app_min_version = ''2.0'',
    manifest_fields = [(''app_min_version'', JString ''2.0'')]\<rparr>"
  let ?m1 = "\<lparr>app_min_version = ''1.0'',
    manifest_fields = [(''app_min_version'', JString ''1.0'')]\<rparr>"
  have p2: "JSON_parse demo_env ''{\"app_min_version\": \"2.0\"}'' = Inr ?o2"
    and p1: "JSON_parse demo_env ''{\"app_min_version\": \"1.0\"}'' = Inr ?o1"
    by (simp_all add: demo_defs)
  have d2: "default_app_min_version ?o2 = Inr (?o2, False)"
    and d1: "default_app_min_version ?o1 = Inr (?o1, False)"
    by (simp_all add: default_app_min_version_def)
  have v2: "manifestFromObject demo_env ?o2 = Inr ?m2"
    and v1: "manifestFromObject demo_env ?o1 = Inr ?m1"
    by (simp_all add: demo_defs)
  have f: "\<not> registered demo_env demo_service ''alpha''"
    by (simp add: demo_defs registered_def object_prototype_members_def)
  have c2: "compareVersions demo_env (appVersion demo_service) (app_min_version ?m2) = Inr (- 1)"
    and c1: "compareVersions demo_env (appVersion demo_service) (app_min_version ?m1) = Inr 1"
    by (simp_all add: demo_defs)
  from loadPlugin_version_gate [OF p2 d2 v2 f c2, of "''plugins/alpha''" "''alpha();''"]
    loadPlugin_version_gate [OF p1 d1 v1 f c1, of "''plugins/alpha''" "''alpha();''"]
  show ?thesis unfolding demo_service_def by (simp only: service.simps append_Nil) force
qed


section \<open>The default minimum version\<close>

lemma set_field_absent: "map_of kvs k = None \<Longrightarrow> set_field k v kvs = kvs @ [(k, v)]"
  by (induction kvs) (auto split: if_splits)

lemma default_app_min_version_lacking:
  "map_of kvs ''app_min_version'' = None \<Longrightarrow>
     default_app_min_version (JObject kvs) =
       Inr (JObject (kvs @ [(''app_min_version'', JString ''1.4'')]), True)"
  by (simp add: default_app_min_version_def set_field_absent)

lemma default_app_min_version_explicit:
  "map_of kvs ''app_min_version'' = None \<Longrightarrow>
     default_app_min_version (JObject (kvs @ [(''app_min_version'', JString ''1.4'')])) =
       Inr (JObject (kvs @ [(''app_min_version'', JString ''1.4'')]), False)"
  by (simp add: default_app_min_version_def map_add_def split: option.splits)

text \<open>
  C8. When the manifest text parses to an object without the key \<open>app_min_version\<close>,
  \<^verbatim>\<open>loadPlugin\<close> gives the validator the object with \<open>app_min_version\<close> set to \<open>''1.4''\<close>
  (the manifest of the plugin is what the validator makes of that object), and the
  plugin it returns carries the deprecation notice, tagged with version 1.5. The
  defaulting decides nothing about \<open>enabled\<close> by itself: the version gate does, the
  plugin is enabled exactly when the application is not older than the minimum version
  of the manifest, and the load is, but for the notice, the load of a manifest which
  names \<open>''1.4''\<close> itself.
\<close>

theorem loadPlugin_default_app_min_version:
  assumes parsed: "JSON_parse e mt = Inr (JObject kvs)"
    and lacking: "map_of kvs ''app_min_version'' = None"
    and valid: "manifestFromObject e (JObject (kvs @ [(''app_min_version'', JString ''1.4'')])) = Inr m"
    and fresh: "\<not> registered e s pluginId"
    and compared: "compareVersions e (appVersion s) (app_min_version m) = Inr c"
  shows "\<exists>p s'. loadPlugin e pluginId dir mt st s = (Inr p, s') \<and>
           plugin_manifest p = m \<and>
           notices p = [(''1.5'', app_min_version_notice)] \<and>
           (enabled p \<longleftrightarrow> \<not> c < 0) \<and>
           (\<forall>mt'. JSON_parse e mt' = Inr (JObject (kvs @ [(''app_min_version'', JString ''1.4'')])) \<longrightarrow>
              loadPlugin e pluginId dir mt' st s = (Inr (p\<lparr>notices := []\<rparr>), s'))"
  using assms default_app_min_version_lacking [OF lacking]
    default_app_min_version_explicit [OF lacking]
  by (auto simp: loadPlugin_def gate_and_announce_def new_Plugin_def deprecationNotice_def
      logger_info_def dispatch_def plugin_add_def Let_def)

text \<open>
  The instances: the manifest \<open>{}\<close>, with the application at version 1.5, where the
  plugin is enabled, and at version 1.0, where the version gate disables it.
\<close>

theorem loadPlugin_default_app_min_version_witness:
  "(\<exists>p s'. loadPlugin demo_env ''myplugin'' ''plugins/MyPlugin'' ''{}'' ''run();''
        demo_service = (Inr p, s') \<and>
      plugin_manifest p = \<lparr>app_min_version = ''1.4'',
        manifest_fields = [(''app_min_version'', JString ''1.4'')]\<rparr> \<and>
      notices p = [(''1.5'', app_min_version_notice)] \<and> enabled p) \<and>
   (\<exists>p s'. loadPlugin demo_env ''myplugin'' ''plugins/MyPlugin'' ''{}'' ''run();''
        (demo_service\<lparr>appVersion := ''1.0''\<rparr>) = (Inr p, s') \<and>
      plugin_manifest p = \<lparr>app_min_version = ''1.4'',
        manifest_fields = [(''app_min_version'', JString ''1.4'')]\<rparr> \<and>
      notices p = [(''1.5'', app_min_version_notice)] \<and> \<not> enabled p)"
proof -
  let ?m = "\<lparr>app_min_version = ''1.4'',
    manifest_fields = [(''app_min_version'', JString ''1.4'')]\<rparr>"
  let ?old = "demo_service\<lparr>appVersion := ''1.0''\<rparr>"
  have p: "JSON_parse demo_env ''{}'' = Inr (JObject [])"
    by (simp add: demo_defs)
  have l: "map_of ([] :: (string \<times> json) list) ''app_min_version'' = None"
    by simp
  have v: "manifestFromObject demo_env (JObject ([] @ [(''app_min_version'', JString ''1.4'')])) = Inr ?m"
    by (simp add: demo_defs)
  have f: "\<not> registered demo_env demo_service ''myplugin''"
    and f': "\<not> registered demo_env ?old ''myplugin''"
    by (simp_all add: demo_defs registered_def object_prototype_members_def)
  have c: "compareVersions demo_env (appVersion demo_service) (app_min_version ?m) = Inr 1"
    and c': "compareVersions demo_env (appVersion ?old) (app_min_version ?m) = Inr (- 1)"
    by (simp_all add: demo_defs)
  from loadPlugin_default_app_min_version [OF p l v f c, of "''plugins/MyPlugin''" "''run();''"]
  have new_host: "\<exists>p s'. loadPlugin demo_env ''myplugin'' ''plugins/MyPlugin'' ''{}'' ''run();''
        demo_service = (Inr p, s') \<and> plugin_manifest p = ?m \<and>
      notices p = [(''1.5'', app_min_version_notice)] \<and> enabled p"
    by force
  from loadPlugin_default_app_min_version [OF p l v f' c', of "''plugins/MyPlugin''" "''run();''"]
  have old_host: "\<exists>p s'. loadPlugin demo_env ''myplugin'' ''plugins/MyPlugin'' ''{}'' ''run();''
        ?old = (Inr p, s') \<and> plugin_manifest p = ?m \<and>
      notices p = [(''1.5'', app_min_version_notice)] \<and> \<not> enabled p"
    by force
  from new_host old_host show ?thesis
    by (rule conjI)
qed

section \<open>The duplicate check\<close>

lemma runPlugin_registers:
  assumes "plugin_id p \<noteq> ''__proto__''" "runPlugin e p s = (r, s')"
  shows "plugins s' (plugin_id p) = Some p"
  using assms by (auto simp: runPlugin_def register_def Let_def)

lemma registered_logger_info:
  "registered e (logger_info msg a s) i = registered e s i"
  by (rule registered_cong) (simp_all add: logger_info_def)

lemma loadPlugin_registered_fails:
  assumes "registered e s i"
  shows "\<exists>err. loadPlugin e i d mt st s = (Inl err, s)"
  using assms by (auto simp: loadPlugin_def Let_def split: sum.splits)

lemma loadPlugin_registered_duplicate:
  assumes "registered e s i" "JSON_parse e mt = Inr obj0"
    "default_app_min_version obj0 = Inr (obj, notice)" "manifestFromObject e obj = Inr m"
  shows "loadPlugin e i d mt st s = (Inl (DuplicateIdentifier i), s)"
  using assms by (simp add: loadPlugin_def)

lemma loadPlugin_Inr_id:
  "loadPlugin e i d mt st s = (Inr p, s') \<Longrightarrow> plugin_id p = i \<and> i \<noteq> ''__proto__''"
  using loadPlugin_Inr_fresh [of e i d mt st s p s'] by (auto simp: registered_def)

text \<open>The load of a directory, step by step.\<close>

lemma loadPluginFromPath_directory:
  assumes "\<not> ends_with ''.js'' (toLowerCase (rtrimSlashes e path))"
    and "fs_exists e (rtrimSlashes e path @ ''/manifest.json'') = Inr found"
    and "distPath = (if found then rtrimSlashes e path else rtrimSlashes e path @ ''/dist'')"
    and "fs_readFile e (distPath @ ''/index.js'') = Inr script"
    and "fs_readFile e (distPath @ ''/manifest.json'') = Inr mt"
    and "filename e (rtrimSlashes e path) = Inr name"
  shows "loadPluginFromPath e path s =
     loadPlugin e (makePluginId e name) distPath mt script
       (logger_info (loading_message (rtrimSlashes e path)) NoArg s)"
  using assms by (cases found) (simp_all add: loadPluginFromPath_def Let_def)

lemma loadPluginFromPath_directory_cases:
  assumes dir: "\<not> ends_with ''.js'' (toLowerCase (rtrimSlashes e path))"
    and name: "filename e (rtrimSlashes e path) = Inr name"
  shows "(\<exists>err. loadPluginFromPath e path s = (Inl err, s)) \<or>
         (\<exists>err. loadPluginFromPath e path s =
            (Inl err, logger_info (loading_message (rtrimSlashes e path)) NoArg s)) \<or>
         (\<exists>distPath mt script. loadPluginFromPath e path s =
            loadPlugin e (makePluginId e name) distPath mt script
              (logger_info (loading_message (rtrimSlashes e path)) NoArg s))"
proof (cases "fs_exists e (rtrimSlashes e path @ ''/manifest.json'')")
  case (Inl err)
  with dir have "loadPluginFromPath e path s = (Inl err, s)"
    by (simp add: loadPluginFromPath_def Let_def)
  then show ?thesis by blast
next
  case (Inr found)
  define distPath where "distPath = (if found then rtrimSlashes e path else rtrimSlashes e path @ ''/dist'')"
  show ?thesis
  proof (cases "fs_readFile e (distPath @ ''/index.js'')")
    case (Inl err)
    with dir Inr have "loadPluginFromPath e path s =
        (Inl err, logger_info (loading_message (rtrimSlashes e path)) NoArg s)"
      by (cases found) (simp_all add: loadPluginFromPath_def Let_def distPath_def)
    then show ?thesis by blast
  next
    case script: (Inr script)
    show ?thesis
    proof (cases "fs_readFile e (distPath @ ''/manifest.json'')")
      case (Inl err)
      with dir Inr script have "loadPluginFromPath e path s =
          (Inl err, logger_info (loading_message (rtrimSlashes e path)) NoArg s)"
        by (cases found) (simp_all add: loadPluginFromPath_def Let_def distPath_def)
      then show ?thesis by blast
    next
      case mt: (Inr mt)
      from loadPluginFromPath_directory [OF dir Inr distPath_def script mt name]
      show ?thesis by blast
    qed
  qed
qed

lemma loadPluginFromPath_directory_id:
  assumes dir: "\<not> ends_with ''.js'' (toLowerCase (rtrimSlashes e path))"
    and name: "filename e (rtrimSlashes e path) = Inr name"
    and loaded: "loadPluginFromPath e path s = (Inr p, s')"
  shows "plugin_id p = makePluginId e name \<and> makePluginId e name \<noteq> ''__proto__''"
proof -
  from loadPluginFromPath_directory_cases [OF dir name, of s] loaded
  obtain distPath mt script where "loadPlugin e (makePluginId e name) distPath mt script
      (logger_info (loading_message (rtrimSlashes e path)) NoArg s) = (Inr p, s')"
    by auto
  then show ?thesis
    by (rule loadPlugin_Inr_id)
qed

lemma loadPluginFromPath_directory_registered:
  assumes dir: "\<not> ends_with ''.js'' (toLowerCase (rtrimSlashes e path))"
    and name: "filename e (rtrimSlashes e path) = Inr name"
    and stored: "registered e s (makePluginId e name)"
  shows "\<exists>err s'. loadPluginFromPath e path s = (Inl err, s') \<and>
           (s' = s \<or> s' = logger_info (loading_message (rtrimSlashes e path)) NoArg s)"
proof -
  let ?s1 = "logger_info (loading_message (rtrimSlashes e path)) NoArg s"
  from stored have stored': "registered e ?s1 (makePluginId e name)"
    by (simp add: registered_logger_info)
  from loadPluginFromPath_directory_cases [OF dir name, of s]
  consider err where "loadPluginFromPath e path s = (Inl err, s)"
    | err where "loadPluginFromPath e path s = (Inl err, ?s1)"
    | distPath mt script where "loadPluginFromPath e path s =
        loadPlugin e (makePluginId e name) distPath mt script ?s1"
    by blast
  then show ?thesis
  proof cases
    case 1
    then show ?thesis by blast
  next
    case 2
    then show ?thesis by blast
  next
    case 3
    with loadPlugin_registered_fails [OF stored', of distPath mt script] show ?thesis
      by auto
  qed
qed

text \<open>
  C3, as the code has it. Two directories whose names normalize to the same
  identifier: once the first is loaded and run, a load of the second fails; no plugin is
  returned, and the registry, the actions dispatched and the plugins run are as before.
  The files are read and the manifest goes through \<^verbatim>\<open>JSON.parse\<close> and the validator
  before the duplicate check: when the second directory passes these, the error is
  \<open>DuplicateIdentifier\<close>, thrown before the plugin is constructed, and only the entry of
  the path resolver has been logged.
\<close>

theorem duplicate_directory_rejected:
  assumes dir1: "\<not> ends_with ''.js'' (toLowerCase (rtrimSlashes e path1))"
    and dir2: "\<not> ends_with ''.js'' (toLowerCase (rtrimSlashes e path2))"
    and name1: "filename e (rtrimSlashes e path1) = Inr name1"
    and name2: "filename e (rtrimSlashes e path2) = Inr name2"
    and same_id: "makePluginId e name1 = makePluginId e name2"
    and first_loaded: "loadPluginFromPath e path1 s = (Inr p, s1)"
    and first_run: "runPlugin e p s1 = (r, s2)"
  shows "(\<exists>err s3. loadPluginFromPath e path2 s2 = (Inl err, s3) \<and>
            plugins s3 = plugins s2 \<and> plugins_proto s3 = plugins_proto s2 \<and>
            dispatched s3 = dispatched s2 \<and> ran s3 = ran s2) \<and>
         (\<forall>found distPath script mt obj0 obj notice m.
            fs_exists e (rtrimSlashes e path2 @ ''/manifest.json'') = Inr found \<longrightarrow>
            distPath = (if found then rtrimSlashes e path2 else rtrimSlashes e path2 @ ''/dist'') \<longrightarrow>
            fs_readFile e (distPath @ ''/index.js'') = Inr script \<longrightarrow>
            fs_readFile e (distPath @ ''/manifest.json'') = Inr mt \<longrightarrow>
            JSON_parse e mt = Inr obj0 \<longrightarrow>
            default_app_min_version obj0 = Inr (obj, notice) \<longrightarrow>
            manifestFromObject e obj = Inr m \<longrightarrow>
            loadPluginFromPath e path2 s2 =
              (Inl (DuplicateIdentifier (makePluginId e name2)),
               logger_info (''PluginService: Loading plugin from '' @ rtrimSlashes e path2) NoArg s2))"
proof -
  let ?s2' = "logger_info (loading_message (rtrimSlashes e path2)) NoArg s2"
  from loadPluginFromPath_directory_id [OF dir1 name1 first_loaded]
  have id: "plugin_id p = makePluginId e name1" "plugin_id p \<noteq> ''__proto__''"
    by simp_all
  from runPlugin_registers [OF id(2) first_run] id same_id
  have stored: "registered e s2 (makePluginId e name2)"
    by (simp add: registered_def)
  then have stored': "registered e ?s2' (makePluginId e name2)"
    by (simp add: registered_logger_info)
  from loadPluginFromPath_directory_registered [OF dir2 name2 stored]
  obtain err s3 where fails: "loadPluginFromPath e path2 s2 = (Inl err, s3)"
    and s3: "s3 = s2 \<or> s3 = ?s2'"
    by blast
  from s3 have "plugins s3 = plugins s2 \<and> plugins_proto s3 = plugins_proto s2 \<and>
      dispatched s3 = dispatched s2 \<and> ran s3 = ran s2"
    by (auto simp: logger_info_def)
  with fails have always: "\<exists>err s3. loadPluginFromPath e path2 s2 = (Inl err, s3) \<and>
      plugins s3 = plugins s2 \<and> plugins_proto s3 = plugins_proto s2 \<and>
      dispatched s3 = dispatched s2 \<and> ran s3 = ran s2"
    by blast
  have "loadPluginFromPath e path2 s2 = (Inl (DuplicateIdentifier (makePluginId e name2)), ?s2')"
    if found: "fs_exists e (rtrimSlashes e path2 @ ''/manifest.json'') = Inr found"
      and distPath: "distPath = (if found then rtrimSlashes e path2 else rtrimSlashes e path2 @ ''/dist'')"
      and script: "fs_readFile e (distPath @ ''/index.js'') = Inr script"
      and mt: "fs_readFile e (distPath @ ''/manifest.json'') = Inr mt"
      and parsed: "JSON_parse e mt = Inr obj0"
      and defaulted: "default_app_min_version obj0 = Inr (obj, notice)"
      and valid: "manifestFromObject e obj = Inr m"
    for found distPath script mt obj0 obj notice m
    using loadPluginFromPath_directory [OF dir2 found distPath script mt name2, of s2]
      loadPlugin_registered_duplicate [OF stored' parsed defaulted valid, of distPath script]
    by simp
  with always show ?thesis
    unfolding loading_message_def by blast
qed

text \<open>
  C3 as stated fails: \<open>MyPlugin\<close> and \<open>myplugin\<close> normalize to the same identifier and
  the first is loaded and run, but the manifest of the second does not parse, and its
  load fails with the error of \<^verbatim>\<open>JSON.parse\<close>, not with \<open>DuplicateIdentifier\<close>.
\<close>

theorem duplicate_identifier_counterexample:
  "filename demo_env ''plugins/MyPlugin'' = Inr ''MyPlugin'' \<and>
   filename demo_env ''plugins/myplugin'' = Inr ''myplugin'' \<and>
   makePluginId demo_env ''MyPlugin'' = makePluginId demo_env ''myplugin'' \<and>
   fst (loadPluginFromPath demo_env ''plugins/MyPlugin'' demo_service) = Inr demo_myplugin \<and>
   fst (runPlugin demo_env demo_myplugin
     (snd (loadPluginFromPath demo_env ''plugins/MyPlugin'' demo_service))) = Inr () \<and>
   fst (loadPluginFromPath demo_env ''plugins/myplugin''
     (snd (runPlugin demo_env demo_myplugin
       (snd (loadPluginFromPath demo_env ''plugins/MyPlugin'' demo_service))))) =
     Inl InvalidManifestJson"
  by (simp add: service_defs demo_defs string_defs demo_myplugin_def loading_message_def Let_def)

text \<open>
  The instance: the directories \<open>plugins/MyPlugin\<close> and \<open>plugins/MYPLUGIN\<close>, both with a
  manifest which parses and is valid.
\<close>

theorem duplicate_directory_rejected_witness:
  "makePluginId demo_env ''MyPlugin'' = ''myplugin'' \<and>
   makePluginId demo_env ''MYPLUGIN'' = ''myplugin'' \<and>
   fst (loadPluginFromPath demo_env ''plugins/MyPlugin'' demo_service) = Inr demo_myplugin \<and>
   fst (runPlugin demo_env demo_myplugin
     (snd (loadPluginFromPath demo_env ''plugins/MyPlugin'' demo_service))) = Inr () \<and>
   loadPluginFromPath demo_env ''plugins/MYPLUGIN''
     (snd (runPlugin demo_env demo_myplugin
       (snd (loadPluginFromPath demo_env ''plugins/MyPlugin'' demo_service)))) =
     (Inl (DuplicateIdentifier ''myplugin''),
      logger_info ''PluginService: Loading plugin from plugins/MYPLUGIN'' NoArg
        (snd (runPlugin demo_env demo_myplugin
          (snd (loadPluginFromPath demo_env ''plugins/MyPlugin'' demo_service)))))"
proof -
  let ?s1 = "snd (loadPluginFromPath demo_env ''plugins/MyPlugin'' demo_service)"
  let ?s2 = "snd (runPlugin demo_env demo_myplugin ?s1)"
  have dir1: "\<not> ends_with ''.js'' (toLowerCase (rtrimSlashes demo_env ''plugins/MyPlugin''))"
    and dir2: "\<not> ends_with ''.js'' (toLowerCase (rtrimSlashes demo_env ''plugins/MYPLUGIN''))"
    by (simp_all add: demo_defs string_defs)
  have trimmed: "rtrimSlashes demo_env ''plugins/MyPlugin'' = ''plugins/MyPlugin''"
    "rtrimSlashes demo_env ''plugins/MYPLUGIN'' = ''plugins/MYPLUGIN''"
    by (simp_all add: demo_defs)
  have name1: "filename demo_env (rtrimSlashes demo_env ''plugins/MyPlugin'') = Inr ''MyPlugin''"
    and name2: "filename demo_env (rtrimSlashes demo_env ''plugins/MYPLUGIN'') = Inr ''MYPLUGIN''"
    by (simp_all add: demo_defs)
  have id1: "makePluginId demo_env ''MyPlugin'' = ''myplugin''"
    and id2: "makePluginId demo_env ''MYPLUGIN'' = ''myplugin''"
    by (simp_all add: makePluginId_def demo_env_def toLowerCase_def lower_char_def)
  have same_id: "makePluginId demo_env ''MyPlugin'' = makePluginId demo_env ''MYPLUGIN''"
    by (simp add: id1 id2)
  have loaded: "fst (loadPluginFromPath demo_env ''plugins/MyPlugin'' demo_service) = Inr demo_myplugin"
    by (simp add: service_defs demo_defs string_defs demo_myplugin_def loading_message_def Let_def)
  then have first_loaded:
    "loadPluginFromPath demo_env ''plugins/MyPlugin'' demo_service = (Inr demo_myplugin, ?s1)"
    by (metis prod.collapse)
  have ran_ok: "fst (runPlugin demo_env demo_myplugin ?s1) = Inr ()"
    by (simp add: runPlugin_def demo_env_def Let_def)
  then have first_run: "runPlugin demo_env demo_myplugin ?s1 = (Inr (), ?s2)"
    by (metis prod.collapse)
  have found: "fs_exists demo_env (rtrimSlashes demo_env ''plugins/MYPLUGIN'' @ ''/manifest.json'') = Inr True"
    by (simp add: demo_defs)
  have script: "fs_readFile demo_env (''plugins/MYPLUGIN'' @ ''/index.js'') = Inr ''other();''"
    and mt: "fs_readFile demo_env (''plugins/MYPLUGIN'' @ ''/manifest.json'') =
      Inr ''{\"app_min_version\": \"1.0\"}''"
    by (simp_all add: demo_defs)
  have parsed: "JSON_parse demo_env ''{\"app_min_version\": \"1.0\"}'' =
      Inr (JObject [(''app_min_version'', JString ''1.0'')])"
    by (simp add: demo_defs)
  have defaulted: "default_app_min_version (JObject [(''app_min_version'', JString ''1.0'')]) =
      Inr (JObject [(''app_min_version'', JString ''1.0'')], False)"
    by (simp add: default_app_min_version_def)
  have valid: "manifestFromObject demo_env (JObject [(''app_min_version'', JString ''1.0'')]) =
      Inr \<lparr>app_min_version = ''1.0'', manifest_fields = [(''app_min_version'', JString ''1.0'')]\<rparr>"
    by (simp add: demo_defs)
  from duplicate_directory_rejected [OF dir1 dir2 name1 name2 same_id first_loaded first_run]
    found script mt parsed defaulted valid trimmed
  have second: "loadPluginFromPath demo_env ''plugins/MYPLUGIN'' ?s2 =
     (Inl (DuplicateIdentifier (makePluginId demo_env ''MYPLUGIN'')),
      logger_info (''PluginService: Loading plugin from '' @ ''plugins/MYPLUGIN'') NoArg ?s2)"
    by (metis (full_types))
  show ?thesis
  proof (intro conjI)
    show "makePluginId demo_env ''MyPlugin'' = ''myplugin''" by (fact id1)
    show "makePluginId demo_env ''MYPLUGIN'' = ''myplugin''" by (fact id2)
    show "fst (loadPluginFromPath demo_env ''plugins/MyPlugin'' demo_service) = Inr demo_myplugin"
      by (fact loaded)
    show "fst (runPlugin demo_env demo_myplugin ?s1) = Inr ()" by (fact ran_ok)
    from second show "loadPluginFromPath demo_env ''plugins/MYPLUGIN'' ?s2 =
     (Inl (DuplicateIdentifier ''myplugin''),
      logger_info ''PluginService: Loading plugin from plugins/MYPLUGIN'' NoArg ?s2)"
      by (simp only: id2 append.simps)
  qed
qed

section \<open>The Manifest Block Extractor\<close>

lemma scan_lines_in_manifest:
  "scan_lines e StateInManifest acc ls = acc @ map (trim e) (takeWhile (\<lambda>l. \<not> is_closing e l) ls)"
  by (induction ls arbitrary: acc) (simp_all add: is_closing_def Let_def)

lemma scan_lines_started:
  "scan_lines e StateStarted acc ls =
     acc @ map (trim e) (takeWhile (\<lambda>l. \<not> is_closing e l) (after_opening e ls))"
proof (induction ls)
  case Nil
  then show ?case by (simp add: after_opening_def)
next
  case (Cons l ls)
  show ?case
  proof (cases "is_opening e l")
    case True
    then show ?thesis
      by (simp add: after_opening_def is_opening_def scan_lines_in_manifest)
  next
    case False
    with Cons show ?thesis
      by (simp add: after_opening_def is_opening_def)
  qed
qed

lemma parsePluginJsBundle_eq:
  "parsePluginJsBundle e b =
     (if takeWhile (\<lambda>l. \<not> is_closing e l) (after_opening e (bundle_lines b)) = []
      then Inl ManifestNotFound
      else Inr \<lparr>bundle_scriptText = b,
        bundle_manifestText = join [CHR 0x0A]
          (map (trim e) (takeWhile (\<lambda>l. \<not> is_closing e l) (after_opening e (bundle_lines b))))\<rparr>)"
  by (simp add: parsePluginJsBundle_def scan_lines_started bundle_lines_def Let_def)

lemma after_opening_none: "\<not> list_ex (is_opening e) ls \<Longrightarrow> after_opening e ls = []"
proof -
  assume "\<not> list_ex (is_opening e) ls"
  then have none: "dropWhile (\<lambda>l. \<not> is_opening e l) ls = []"
    by (simp add: list_ex_iff)
  show ?thesis
    by (simp only: after_opening_def none drop_Nil)
qed

lemma takeWhile_all: "\<not> list_ex P ls \<Longrightarrow> takeWhile (\<lambda>l. \<not> P l) ls = ls"
  by (induction ls) simp_all

lemma after_opening_suffix: "set (after_opening e ls) \<subseteq> set ls"
  unfolding after_opening_def
  by (meson set_drop_subset set_dropWhileD subset_iff)

text \<open>
  C5, as the code has it. A bundle without an opening marker line fails with
  \<open>ManifestNotFound\<close>. Extraction fails exactly when no line is collected: no line follows
  the first opening marker line, or the line which follows it begins with the closing
  marker; it never fails with another error. The closing marker is not required: a
  bundle without a closing marker line, with a line after its opening marker line,
  succeeds, and its manifest text is every line after the opening marker, trimmed and
  joined.
\<close>

theorem manifest_not_found_iff:
  "(\<not> has_opening_marker e b \<longrightarrow> parsePluginJsBundle e b = Inl ManifestNotFound) \<and>
   (parsePluginJsBundle e b = Inl ManifestNotFound \<longleftrightarrow>
      (case after_opening e (bundle_lines b) of [] \<Rightarrow> True | l # ls \<Rightarrow> is_closing e l)) \<and>
   (\<forall>err. parsePluginJsBundle e b = Inl err \<longrightarrow> err = ManifestNotFound) \<and>
   (\<not> has_closing_marker e b \<longrightarrow> after_opening e (bundle_lines b) \<noteq> [] \<longrightarrow>
      parsePluginJsBundle e b =
        Inr \<lparr>bundle_scriptText = b,
          bundle_manifestText = join [CHR 0x0A] (map (trim e) (after_opening e (bundle_lines b)))\<rparr>)"
proof (intro conjI impI allI)
  assume "\<not> has_opening_marker e b"
  then show "parsePluginJsBundle e b = Inl ManifestNotFound"
    by (simp add: parsePluginJsBundle_eq has_opening_marker_def after_opening_none)
next
  show "parsePluginJsBundle e b = Inl ManifestNotFound \<longleftrightarrow>
      (case after_opening e (bundle_lines b) of [] \<Rightarrow> True | l # ls \<Rightarrow> is_closing e l)"
    by (simp add: parsePluginJsBundle_eq split: list.splits)
next
  fix err assume "parsePluginJsBundle e b = Inl err"
  then show "err = ManifestNotFound"
    by (simp add: parsePluginJsBundle_eq split: if_splits)
next
  assume no_closing: "\<not> has_closing_marker e b" and some: "after_opening e (bundle_lines b) \<noteq> []"
  from no_closing have "\<not> list_ex (is_closing e) (after_opening e (bundle_lines b))"
    using after_opening_suffix [of e "bundle_lines b"]
    by (auto simp: has_closing_marker_def list_ex_iff)
  then have "takeWhile (\<lambda>l. \<not> is_closing e l) (after_opening e (bundle_lines b)) =
      after_opening e (bundle_lines b)"
    by (rule takeWhile_all)
  with some show "parsePluginJsBundle e b =
        Inr \<lparr>bundle_scriptText = b,
          bundle_manifestText = join [CHR 0x0A] (map (trim e) (after_opening e (bundle_lines b)))\<rparr>"
    by (simp only: parsePluginJsBundle_eq if_False)
qed

lemmas marker_defs =
  demo_env_def bundle_lines_def is_opening_def is_closing_def has_opening_marker_def has_closing_marker_def
  after_opening_def

text \<open>
  C5 as stated fails: this bundle has an opening marker line and no closing marker
  line, and extraction returns a manifest text.
\<close>

theorem missing_closing_marker_counterexample:
  "has_opening_marker demo_env ''/* joplin-manifest:\<newline>{}\<newline>run();'' \<and>
   \<not> has_closing_marker demo_env ''/* joplin-manifest:\<newline>{}\<newline>run();'' \<and>
   parsePluginJsBundle demo_env ''/* joplin-manifest:\<newline>{}\<newline>run();'' =
     Inr \<lparr>bundle_scriptText = ''/* joplin-manifest:\<newline>{}\<newline>run();'',
          bundle_manifestText = ''{}\<newline>run();''\<rparr>"
  by (simp add: marker_defs string_defs parsePluginJsBundle_def Let_def)

text \<open>
  The instances: a bundle without opening marker, a bundle whose block is empty, and a
  bundle without closing marker.
\<close>

theorem manifest_not_found_iff_witness:
  "\<not> has_opening_marker demo_env ''run();\<newline>*/'' \<and>
   parsePluginJsBundle demo_env ''run();\<newline>*/'' = Inl ManifestNotFound \<and>
   after_opening demo_env (bundle_lines ''/* joplin-manifest:\<newline>*/\<newline>run();'') = [''*/'', ''run();''] \<and>
   parsePluginJsBundle demo_env ''/* joplin-manifest:\<newline>*/\<newline>run();'' = Inl ManifestNotFound \<and>
   \<not> has_closing_marker demo_env '' /* joplin-manifest:\<newline> {} \<newline>run();'' \<and>
   after_opening demo_env (bundle_lines '' /* joplin-manifest:\<newline> {} \<newline>run();'') = ['' {} '', ''run();''] \<and>
   parsePluginJsBundle demo_env '' /* joplin-manifest:\<newline> {} \<newline>run();'' =
     Inr \<lparr>bundle_scriptText = '' /* joplin-manifest:\<newline> {} \<newline>run();'',
          bundle_manifestText = ''{}\<newline>run();''\<rparr>"
proof -
  have h1: "\<not> has_opening_marker demo_env ''run();\<newline>*/''"
    by (simp add: marker_defs string_defs)
  have h2: "after_opening demo_env (bundle_lines ''/* joplin-manifest:\<newline>*/\<newline>run();'') = [''*/'', ''run();'']"
    by (simp add: marker_defs string_defs)
  have h2': "is_closing demo_env ''*/''"
    by (simp add: marker_defs string_defs)
  have h3: "\<not> has_closing_marker demo_env '' /* joplin-manifest:\<newline> {} \<newline>run();''"
    by (simp add: marker_defs string_defs)
  have h4: "after_opening demo_env (bundle_lines '' /* joplin-manifest:\<newline> {} \<newline>run();'') = ['' {} '', ''run();'']"
    by (simp add: marker_defs string_defs)
  have j: "join [CHR 0x0A] (map (trim demo_env) ['' {} '', ''run();'']) = ''{}\<newline>run();''"
    by (simp add: string_defs demo_env_def)
  from manifest_not_found_iff [of demo_env "''run();\<newline>*/''"] h1
  have r1: "parsePluginJsBundle demo_env ''run();\<newline>*/'' = Inl ManifestNotFound"
    by blast
  from manifest_not_found_iff [of demo_env "''/* joplin-manifest:\<newline>*/\<newline>run();''"] h2 h2'
  have r2: "parsePluginJsBundle demo_env ''/* joplin-manifest:\<newline>*/\<newline>run();'' = Inl ManifestNotFound"
    by simp
  from manifest_not_found_iff [of demo_env "'' /* joplin-manifest:\<newline> {} \<newline>run();''"] h3 h4 j
  have r3: "parsePluginJsBundle demo_env '' /* joplin-manifest:\<newline> {} \<newline>run();'' =
     Inr \<lparr>bundle_scriptText = '' /* joplin-manifest:\<newline> {} \<newline>run();'',
          bundle_manifestText = ''{}\<newline>run();''\<rparr>"
    by simp
  from h1 r1 h2 r2 h3 h4 r3 show ?thesis
    by (intro conjI)
qed

lemma after_opening_first:
  assumes "\<forall>l\<in>set pre. \<not> is_opening e l" "is_opening e opening"
  shows "after_opening e (pre @ opening # rest) = rest"
  using assms by (simp add: after_opening_def dropWhile_append3)

lemma takeWhile_inner:
  assumes "\<forall>l\<in>set inner. \<not> is_closing e l" "is_closing e closing"
  shows "takeWhile (\<lambda>l. \<not> is_closing e l) (inner @ closing # post) = inner"
  using assms by (simp add: takeWhile_append2 takeWhile_tail)

text \<open>
  C7, as the code has it. A bundle whose first opening marker line begins a well-formed
  manifest block: its lines are some lines without opening marker, the opening marker
  line, the inner lines (at least one, none of them beginning with the closing marker),
  the closing marker line, and the rest. Extraction succeeds; the manifest text is the
  inner lines, trimmed and joined with newlines, and the script text is the bundle text
  itself.
\<close>

theorem well_formed_block_extracted:
  assumes lines: "split CHR 0x0A b = pre @ opening # inner @ closing # post"
    and first: "\<forall>l\<in>set pre. trim e l \<noteq> opening_marker"
    and op_line: "trim e opening = opening_marker"
    and inner: "inner \<noteq> []" "\<forall>l\<in>set inner. \<not> starts_with closing_marker (trim e l)"
    and cl_line: "starts_with closing_marker (trim e closing)"
  shows "parsePluginJsBundle e b =
     Inr \<lparr>bundle_scriptText = b, bundle_manifestText = join [CHR 0x0A] (map (trim e) inner)\<rparr>"
proof -
  from lines first op_line
  have "after_opening e (bundle_lines b) = inner @ closing # post"
    by (simp add: bundle_lines_def after_opening_first is_opening_def)
  moreover from inner(2) cl_line
  have "takeWhile (\<lambda>l. \<not> is_closing e l) (inner @ closing # post) = inner"
    by (intro takeWhile_inner) (simp_all add: is_closing_def)
  ultimately show ?thesis
    using inner(1) by (simp add: parsePluginJsBundle_eq)
qed

text \<open>
  C7 as stated fails: this bundle contains a well-formed block (an opening marker line,
  the inner line \<open>{}\<close> and a closing marker line), but an opening marker line and a
  closing marker line stand before it. The scanner is in the manifest at the first
  closing marker and stops there with nothing collected.
\<close>

theorem earlier_marker_counterexample:
  "bundle_lines ''/* joplin-manifest:\<newline>*/\<newline>/* joplin-manifest:\<newline>{}\<newline>*/'' =
     [''/* joplin-manifest:'', ''*/''] @ ''/* joplin-manifest:'' # [''{}''] @ ''*/'' # [] \<and>
   is_opening demo_env ''/* joplin-manifest:'' \<and>
   \<not> is_closing demo_env ''{}'' \<and>
   is_closing demo_env ''*/'' \<and>
   parsePluginJsBundle demo_env ''/* joplin-manifest:\<newline>*/\<newline>/* joplin-manifest:\<newline>{}\<newline>*/'' =
     Inl ManifestNotFound"
  by (simp add: marker_defs string_defs parsePluginJsBundle_def Let_def)

text \<open>The instance: an indented block of two inner lines after a comment line.\<close>

theorem well_formed_block_extracted_witness:
  "parsePluginJsBundle demo_env ''// build\<newline>  /* joplin-manifest:\<newline>  {\<newline>  }  \<newline>  */\<newline>run();'' =
     Inr \<lparr>bundle_scriptText = ''// build\<newline>  /* joplin-manifest:\<newline>  {\<newline>  }  \<newline>  */\<newline>run();'',
          bundle_manifestText = ''{\<newline>}''\<rparr>"
proof -
  let ?b = "''// build\<newline>  /* joplin-manifest:\<newline>  {\<newline>  }  \<newline>  */\<newline>run();''"
  have lines: "split CHR 0x0A ?b =
      [''// build''] @ ''  /* joplin-manifest:'' # [''  {'', ''  }  ''] @ ''  */'' # [''run();'']"
    by simp
  have first: "\<forall>l\<in>set [''// build'']. trim demo_env l \<noteq> opening_marker"
    by (simp add: string_defs demo_env_def)
  have op_line: "trim demo_env ''  /* joplin-manifest:'' = opening_marker"
    by (simp add: string_defs demo_env_def)
  have inner: "[''  {'', ''  }  ''] \<noteq> []"
    "\<forall>l\<in>set [''  {'', ''  }  '']. \<not> starts_with closing_marker (trim demo_env l)"
    by (simp_all add: string_defs demo_env_def)
  have cl_line: "starts_with closing_marker (trim demo_env ''  */'')"
    by (simp add: string_defs demo_env_def)
  have j: "join [CHR 0x0A] (map (trim demo_env) [''  {'', ''  }  '']) = ''{\<newline>}''"
    by (simp add: string_defs demo_env_def)
  from well_formed_block_extracted [OF lines first op_line inner cl_line] j
  show ?thesis by simp
qed

section \<open>The batch: one failure does not stop the others\<close>

text \<open>
  Nothing in the service reads the logger: what was logged before only stands in front
  of what is logged next.
\<close>

lemma with_log_simps:
  "plugins (with_log l s) = plugins s"
  "plugins_proto (with_log l s) = plugins_proto s"
  "appVersion (with_log l s) = appVersion s"
  "dispatched (with_log l s) = dispatched s"
  "ran (with_log l s) = ran s"
  "logged (with_log l s) = l @ logged s"
  by (simp_all add: with_log_def)

lemma with_log_logger:
  "logger_info msg a (with_log l s) = with_log l (logger_info msg a s)"
  "logger_error msg a (with_log l s) = with_log l (logger_error msg a s)"
  "dispatch act (with_log l s) = with_log l (dispatch act s)"
  by (simp_all add: with_log_def logger_info_def logger_error_def dispatch_def)

lemma with_log_registered:
  "registered e (with_log l s) i = registered e s i"
  by (rule registered_cong) (simp_all add: with_log_def)

lemma with_log_gate:
  "gate_and_announce i m n c p (with_log l s) =
     (case gate_and_announce i m n c p s of (p', s') \<Rightarrow> (p', with_log l s'))"
  by (simp add: gate_and_announce_def with_log_logger)

lemma with_log_loadPlugin:
  "loadPlugin e i d mt st (with_log l s) =
     (case loadPlugin e i d mt st s of (r, s') \<Rightarrow> (r, with_log l s'))"
  by (simp add: loadPlugin_def with_log_gate with_log_simps with_log_registered Let_def
      split: sum.splits prod.splits)

lemma with_log_loadPluginFromString:
  "loadPluginFromString e i d js (with_log l s) =
     (case loadPluginFromString e i d js s of (r, s') \<Rightarrow> (r, with_log l s'))"
  by (simp add: loadPluginFromString_def with_log_loadPlugin Let_def split: sum.splits)

lemma with_log_loadPluginFromPath:
  "loadPluginFromPath e path (with_log l s) =
     (case loadPluginFromPath e path s of (r, s') \<Rightarrow> (r, with_log l s'))"
  by (simp add: loadPluginFromPath_def with_log_loadPlugin with_log_loadPluginFromString
      with_log_logger Let_def split: sum.splits)

lemma with_log_runPlugin:
  "runPlugin e p (with_log l s) = (case runPlugin e p s of (r, s') \<Rightarrow> (r, with_log l s'))"
  by (simp add: runPlugin_def register_def with_log_def Let_def)

lemma with_log_one:
  "load_and_run_one e path (with_log l s) = with_log l (load_and_run_one e path s)"
  by (simp add: load_and_run_one_def with_log_loadPluginFromPath with_log_runPlugin
      with_log_logger split: prod.splits sum.splits)

lemma with_log_all:
  "load_and_run_all e paths (with_log l s) = with_log l (load_and_run_all e paths s)"
  by (induction paths arbitrary: s) (simp_all add: with_log_one)

lemma load_and_run_all_append:
  "load_and_run_all e (xs @ ys) s = load_and_run_all e ys (load_and_run_all e xs s)"
  by (induction xs arbitrary: s) simp_all

text \<open>A load which fails has changed nothing but the log, and has logged no error.\<close>

lemma loadPlugin_Inl:
  "loadPlugin e i d mt st s = (Inl err, s') \<Longrightarrow> s' = s"
  by (auto simp: loadPlugin_def Let_def split: sum.splits prod.splits if_splits)

lemma loadPluginFromString_Inl:
  "loadPluginFromString e i d js s = (Inl err, s') \<Longrightarrow> s' = s"
  by (auto simp: loadPluginFromString_def Let_def split: sum.splits dest: loadPlugin_Inl)

lemma loadPluginFromPath_Inl:
  assumes "loadPluginFromPath e path s = (Inl err, s')"
  shows "\<exists>infos. list_all (\<lambda>x. level x = LogInfo) infos \<and> s' = s\<lparr>logged := logged s @ infos\<rparr>"
proof (cases "ends_with ''.js'' (toLowerCase (rtrimSlashes e path))")
  case True
  with assms have "s' = s"
    by (auto simp: loadPluginFromPath_def Let_def split: sum.splits
        dest: loadPluginFromString_Inl)
  then have "list_all (\<lambda>x. level x = LogInfo) [] \<and> s' = s\<lparr>logged := logged s @ []\<rparr>"
    by simp
  then show ?thesis by blast
next
  case False
  let ?s1 = "logger_info (loading_message (rtrimSlashes e path)) NoArg s"
  from False assms have "s' = s \<or> s' = ?s1"
    by (auto simp: loadPluginFromPath_def Let_def split: sum.splits dest: loadPlugin_Inl)
  then show ?thesis
  proof
    assume "s' = s"
    then have "list_all (\<lambda>x. level x = LogInfo) [] \<and> s' = s\<lparr>logged := logged s @ []\<rparr>"
      by simp
    then show ?thesis by blast
  next
    assume "s' = ?s1"
    then have "list_all (\<lambda>x. level x = LogInfo)
        [\<lparr>level = LogInfo, message = loading_message (rtrimSlashes e path), arg = NoArg\<rparr>] \<and>
      s' = s\<lparr>logged := logged s @
        [\<lparr>level = LogInfo, message = loading_message (rtrimSlashes e path), arg = NoArg\<rparr>]\<rparr>"
      by (simp add: logger_info_def)
    then show ?thesis by blast
  qed
qed

lemma as_with_log: "s\<lparr>logged := l\<rparr> = with_log l (s\<lparr>logged := []\<rparr>)"
  by (simp add: with_log_def)

text \<open>
  C2. In a list of candidates, let the load of the candidate \<open>p\<close> fail, with any error,
  in the state which the candidates before it have left. Then \<^verbatim>\<open>loadAndRunPlugins\<close> does
  not throw. For \<open>p\<close> it logs exactly one error, with the path \<open>p\<close> in its message and the
  error attached, after the informational entries of the failed load. Everything else
  is as in the batch without \<open>p\<close>: the rest of the log, the registry (its properties and
  its prototype), the actions dispatched and the plugins given to the runner, in the
  same order.
\<close>

theorem failed_candidate_isolated:
  assumes not_skipped: "\<not> starts_with ''_'' p"
    and fails: "loadPluginFromPath e p (snd (loadAndRunPlugins e (Paths xs) s)) = (Inl err, s')"
  shows "fst (loadAndRunPlugins e (Paths (xs @ p # ys)) s) = Inr () \<and>
    (\<exists>infos rest. list_all (\<lambda>x. level x = LogInfo) infos \<and>
       logged (snd (loadAndRunPlugins e (Paths (xs @ p # ys)) s)) =
         logged (snd (loadAndRunPlugins e (Paths xs) s)) @ infos @
         [\<lparr>level = LogError, message = ''PluginService: Could not load plugin: '' @ p,
           arg = ErrorArg err\<rparr>] @ rest \<and>
       logged (snd (loadAndRunPlugins e (Paths (xs @ ys)) s)) =
         logged (snd (loadAndRunPlugins e (Paths xs) s)) @ rest) \<and>
    plugins (snd (loadAndRunPlugins e (Paths (xs @ p # ys)) s)) =
      plugins (snd (loadAndRunPlugins e (Paths (xs @ ys)) s)) \<and>
    plugins_proto (snd (loadAndRunPlugins e (Paths (xs @ p # ys)) s)) =
      plugins_proto (snd (loadAndRunPlugins e (Paths (xs @ ys)) s)) \<and>
    dispatched (snd (loadAndRunPlugins e (Paths (xs @ p # ys)) s)) =
      dispatched (snd (loadAndRunPlugins e (Paths (xs @ ys)) s)) \<and>
    ran (snd (loadAndRunPlugins e (Paths (xs @ p # ys)) s)) =
      ran (snd (loadAndRunPlugins e (Paths (xs @ ys)) s))"
proof -
  define s1 where "s1 = load_and_run_all e xs s"
  define z where "z = s1\<lparr>logged := []\<rparr>"
  define entry where "entry =
    \<lparr>level = LogError, message = ''PluginService: Could not load plugin: '' @ p,
      arg = ErrorArg err\<rparr>"
  from fails have fails1: "loadPluginFromPath e p s1 = (Inl err, s')"
    by (simp add: loadAndRunPlugins_def s1_def)
  from loadPluginFromPath_Inl [OF fails1] obtain infos
    where infos: "list_all (\<lambda>x. level x = LogInfo) infos"
      and s': "s' = s1\<lparr>logged := logged s1 @ infos\<rparr>"
    by blast
  have one: "load_and_run_one e p s1 = with_log (logged s1 @ infos @ [entry]) z"
    using not_skipped fails1
    by (simp add: load_and_run_one_def logger_error_def could_not_load_message_def s'
        with_log_def z_def entry_def)
  have s1_z: "s1 = with_log (logged s1) z"
    by (simp add: with_log_def z_def)
  have with_p: "load_and_run_all e (xs @ p # ys) s =
      with_log (logged s1 @ infos @ [entry]) (load_and_run_all e ys z)"
    by (simp add: load_and_run_all_append s1_def [symmetric] one with_log_all)
  have "load_and_run_all e (xs @ ys) s = load_and_run_all e ys (with_log (logged s1) z)"
    using s1_z by (simp add: load_and_run_all_append s1_def [symmetric])
  then have without_p: "load_and_run_all e (xs @ ys) s =
      with_log (logged s1) (load_and_run_all e ys z)"
    by (simp add: with_log_all)
  have logs: "list_all (\<lambda>x. level x = LogInfo) infos \<and>
       logged (snd (loadAndRunPlugins e (Paths (xs @ p # ys)) s)) =
         logged (snd (loadAndRunPlugins e (Paths xs) s)) @ infos @ [entry] @
         logged (load_and_run_all e ys z) \<and>
       logged (snd (loadAndRunPlugins e (Paths (xs @ ys)) s)) =
         logged (snd (loadAndRunPlugins e (Paths xs) s)) @ logged (load_and_run_all e ys z)"
    using infos by (simp add: loadAndRunPlugins_def with_p without_p with_log_simps s1_def)
  have "fst (loadAndRunPlugins e (Paths (xs @ p # ys)) s) = Inr ()"
    by (simp add: loadAndRunPlugins_def)
  moreover from logs have "\<exists>infos rest. list_all (\<lambda>x. level x = LogInfo) infos \<and>
       logged (snd (loadAndRunPlugins e (Paths (xs @ p # ys)) s)) =
         logged (snd (loadAndRunPlugins e (Paths xs) s)) @ infos @ [entry] @ rest \<and>
       logged (snd (loadAndRunPlugins e (Paths (xs @ ys)) s)) =
         logged (snd (loadAndRunPlugins e (Paths xs) s)) @ rest"
    by blast
  moreover have "plugins (snd (loadAndRunPlugins e (Paths (xs @ p # ys)) s)) =
      plugins (snd (loadAndRunPlugins e (Paths (xs @ ys)) s))"
    "plugins_proto (snd (loadAndRunPlugins e (Paths (xs @ p # ys)) s)) =
      plugins_proto (snd (loadAndRunPlugins e (Paths (xs @ ys)) s))"
    "dispatched (snd (loadAndRunPlugins e (Paths (xs @ p # ys)) s)) =
      dispatched (snd (loadAndRunPlugins e (Paths (xs @ ys)) s))"
    "ran (snd (loadAndRunPlugins e (Paths (xs @ p # ys)) s)) =
      ran (snd (loadAndRunPlugins e (Paths (xs @ ys)) s))"
    by (simp_all add: loadAndRunPlugins_def with_p without_p with_log_simps)
  ultimately show ?thesis
    unfolding entry_def by (intro conjI)
qed

lemma demo_broken_fails:
  "loadPluginFromPath demo_env ''plugins/broken'' s =
     (Inl InvalidManifestJson, logger_info (loading_message ''plugins/broken'') NoArg s)"
  by (simp add: loadPluginFromPath_def loadPlugin_def demo_defs string_defs Let_def)

text \<open>
  The instance: three directories, the second with a manifest that does not parse. One
  error is logged, and \<open>alpha\<close> and \<open>gamma\<close> are run.
\<close>

theorem failed_candidate_isolated_witness:
  "fst (loadAndRunPlugins demo_env (Paths [''plugins/alpha'', ''plugins/broken'', ''plugins/gamma''])
      demo_service) = Inr () \<and>
   filter (\<lambda>x. level x = LogError)
     (logged (snd (loadAndRunPlugins demo_env
        (Paths [''plugins/alpha'', ''plugins/broken'', ''plugins/gamma'']) demo_service))) =
     [\<lparr>level = LogError, message = ''PluginService: Could not load plugin: plugins/broken'',
       arg = ErrorArg InvalidManifestJson\<rparr>] \<and>
   map plugin_id (ran (snd (loadAndRunPlugins demo_env
        (Paths [''plugins/alpha'', ''plugins/broken'', ''plugins/gamma'']) demo_service))) =
     [''alpha'', ''gamma''] \<and>
   plugins (snd (loadAndRunPlugins demo_env
        (Paths [''plugins/alpha'', ''plugins/broken'', ''plugins/gamma'']) demo_service)) =
     plugins (snd (loadAndRunPlugins demo_env (Paths [''plugins/alpha'', ''plugins/gamma''])
        demo_service)) \<and>
   dispatched (snd (loadAndRunPlugins demo_env
        (Paths [''plugins/alpha'', ''plugins/broken'', ''plugins/gamma'']) demo_service)) =
     dispatched (snd (loadAndRunPlugins demo_env (Paths [''plugins/alpha'', ''plugins/gamma''])
        demo_service)) \<and>
   ran (snd (loadAndRunPlugins demo_env
        (Paths [''plugins/alpha'', ''plugins/broken'', ''plugins/gamma'']) demo_service)) =
     ran (snd (loadAndRunPlugins demo_env (Paths [''plugins/alpha'', ''plugins/gamma''])
        demo_service))"
proof -
  have not_skipped: "\<not> starts_with ''_'' ''plugins/broken''"
    by (simp add: starts_with_def)
  have fails: "loadPluginFromPath demo_env ''plugins/broken''
      (snd (loadAndRunPlugins demo_env (Paths [''plugins/alpha'']) demo_service)) =
     (Inl InvalidManifestJson, logger_info (loading_message ''plugins/broken'') NoArg
        (snd (loadAndRunPlugins demo_env (Paths [''plugins/alpha'']) demo_service)))"
    by (rule demo_broken_fails)
  have errors: "filter (\<lambda>x. level x = LogError)
     (logged (snd (loadAndRunPlugins demo_env
        (Paths [''plugins/alpha'', ''plugins/broken'', ''plugins/gamma'']) demo_service))) =
     [\<lparr>level = LogError, message = ''PluginService: Could not load plugin: plugins/broken'',
       arg = ErrorArg InvalidManifestJson\<rparr>]"
    by (simp add: service_defs demo_defs string_defs loading_message_def
        could_not_load_message_def Let_def)
  have run: "map plugin_id (ran (snd (loadAndRunPlugins demo_env
        (Paths [''plugins/alpha'', ''plugins/broken'', ''plugins/gamma'']) demo_service))) =
     [''alpha'', ''gamma'']"
    by (simp add: service_defs demo_defs string_defs loading_message_def
        could_not_load_message_def Let_def)
  from failed_candidate_isolated [OF not_skipped fails, of "[''plugins/gamma'']"] errors run
  show ?thesis by simp
qed

section \<open>Where the code departs from the claims\<close>

text \<open>
  C9. \<^verbatim>\<open>runPlugin\<close> assigns \<^verbatim>\<open>this.plugins_[plugin.id]\<close> without a check, and the duplicate
  check of \<^verbatim>\<open>loadPlugin\<close> sees only the plugins which have been run. Two loads of the
  identifier \<open>dup\<close> both succeed while neither plugin has been run; the first is run and
  stored; running the second replaces it in the registry.
\<close>

theorem runPlugin_overwrites:
  "fst (loadPluginFromString demo_env ''dup'' ''a'' demo_bundle demo_service) = Inr (demo_dup ''a'') \<and>
   fst (loadPluginFromString demo_env ''dup'' ''b'' demo_bundle
     (snd (loadPluginFromString demo_env ''dup'' ''a'' demo_bundle demo_service))) = Inr (demo_dup ''b'') \<and>
   plugins (perform_all demo_env
     [LoadPluginFromString ''dup'' ''a'' demo_bundle, LoadPluginFromString ''dup'' ''b'' demo_bundle,
      RunPlugin (demo_dup ''a'')] demo_service) ''dup'' = Some (demo_dup ''a'') \<and>
   plugins (perform_all demo_env
     [LoadPluginFromString ''dup'' ''a'' demo_bundle, LoadPluginFromString ''dup'' ''b'' demo_bundle,
      RunPlugin (demo_dup ''a''), RunPlugin (demo_dup ''b'')] demo_service) ''dup'' = Some (demo_dup ''b'') \<and>
   demo_dup ''a'' \<noteq> demo_dup ''b''"
  by (simp add: service_defs demo_defs string_defs demo_bundle_def demo_dup_def Let_def)

text \<open>
  C4. The loop tests \<^verbatim>\<open>pluginPath.indexOf('_') === 0\<close> on the whole path of the candidate.
  The candidates of a directory are \<^verbatim>\<open>dir + '/' + stat.path\<close>, so for the directory
  \<open>plugins\<close> with an entry \<open>_off\<close> the candidate is \<open>plugins/_off\<close>: it is not skipped, the
  path resolver logs its loading, the plugin is run and stored in the registry. The
  same happens to the path \<open>plugins/_off\<close> in a list given by the caller.
\<close>

theorem underscore_candidate_loaded:
  "directory_candidates ''plugins''
     [\<lparr>isDirectory = True, stat_path = ''alpha''\<rparr>, \<lparr>isDirectory = True, stat_path = ''_off''\<rparr>,
      \<lparr>isDirectory = False, stat_path = ''notes.txt''\<rparr>] = [''plugins/alpha'', ''plugins/_off''] \<and>
   map message (logged (snd (loadAndRunPlugins demo_env (Directory ''plugins'') demo_service))) =
     [''PluginService: Loading plugin from plugins/alpha'',
      ''PluginService: Loading plugin from plugins/_off''] \<and>
   map plugin_id (ran (snd (loadAndRunPlugins demo_env (Directory ''plugins'') demo_service))) =
     [''alpha'', ''_off''] \<and>
   map_option baseDir
     (plugins (snd (loadAndRunPlugins demo_env (Directory ''plugins'') demo_service)) ''_off'') =
     Some ''plugins/_off'' \<and>
   map_option baseDir
     (plugins (snd (loadAndRunPlugins demo_env (Paths [''plugins/_off'']) demo_service)) ''_off'') =
     Some ''plugins/_off''"
  by (simp add: service_defs demo_defs string_defs loading_message_def
        could_not_load_message_def Let_def)

text \<open>
  C6. For a script file \<^verbatim>\<open>loadPluginFromPath\<close> passes \<^verbatim>\<open>filename(path)\<close> as the identifier,
  without \<^verbatim>\<open>makePluginId\<close>: the file \<open>plugins/MyPlugin.js\<close> is loaded as \<open>MyPlugin\<close>, while
  the identifier of that name is \<open>myplugin\<close>. The base directory is the file's directory
  and the content goes through \<^verbatim>\<open>parsePluginJsBundle\<close> to \<^verbatim>\<open>loadPlugin\<close>.
\<close>

theorem script_file_identifier_not_normalized:
  "fst (loadPluginFromPath demo_env ''plugins/MyPlugin.js'' demo_service) =
     Inr \<lparr>plugin_id = ''MyPlugin'', baseDir = ''plugins'',
          plugin_manifest = \<lparr>app_min_version = ''1.0'',
             manifest_fields = [(''app_min_version'', JString ''1.0'')]\<rparr>,
          plugin_scriptText = demo_bundle, enabled = True, notices = []\<rparr> \<and>
   makePluginId demo_env ''MyPlugin'' = ''myplugin''"
  by (simp add: service_defs demo_defs string_defs demo_bundle_def Let_def)

end
